theory Spec2Isabelle
  imports Complex_Main
begin

section \<open>JavaScript values used by the dashboard\<close>

text \<open>
  A JavaScript string is a sequence of UTF-16 code units; \<open>length\<close> counts code units,
  as \<^verbatim>\<open>String.prototype.length\<close> does.  ASCII literals of the script are written
  \<open>js ''...''\<close>; the few non-ASCII characters of the script are named below.
\<close>

type_synonym jsstring = "nat list"

definition js :: "string \<Rightarrow> jsstring" where
  "js s = map of_char s"

definition DASH :: jsstring where \<comment> \<open>U+2014, the placeholder glyph\<close>
  "DASH = [8212]"

definition ELLIPSIS :: jsstring where \<comment> \<open>U+2026\<close>
  "ELLIPSIS = [8230]"

definition DEGREE :: jsstring where \<comment> \<open>U+00B0\<close>
  "DEGREE = [176]"

definition BULLET :: jsstring where \<comment> \<open>U+2022\<close>
  "BULLET = [8226]"

text \<open>
  The numeric fields of the JSON payloads: a finite number (every double is a rational),
  \<^verbatim>\<open>null\<close>, or \<^verbatim>\<open>undefined\<close> for a field that is missing.
\<close>

datatype jsval = Undefined | Null | Num rat

text \<open>The result of an arithmetic builtin: a finite number or \<^verbatim>\<open>NaN\<close>.\<close>

datatype number = NaN | Fin rat

text \<open>\<^verbatim>\<open>ToNumber\<close>: \<^verbatim>\<open>undefined\<close> is \<^verbatim>\<open>NaN\<close>, \<^verbatim>\<open>null\<close> is \<open>0\<close>.\<close>

fun ToNumber :: "jsval \<Rightarrow> number" where
  "ToNumber Undefined = NaN"
| "ToNumber Null = Fin 0"
| "ToNumber (Num r) = Fin r"

text \<open>\<^verbatim>\<open>Math.round\<close>: the closest integer, a tie going towards \<open>+\<infinity>\<close>.\<close>

fun Math_round :: "jsval \<Rightarrow> number" where
  "Math_round v = (case ToNumber v of NaN \<Rightarrow> NaN | Fin r \<Rightarrow> Fin (of_int \<lfloor>r + 1 / 2\<rfloor>))"

text \<open>The nullish test of \<^verbatim>\<open>??\<close> and of \<^verbatim>\<open>!= null\<close>.\<close>

fun nullish :: "jsval \<Rightarrow> bool" where
  "nullish Undefined = True"
| "nullish Null = True"
| "nullish (Num r) = False"

text \<open>Decimal digits of a natural number, as code units.\<close>

fun nat_digits :: "nat \<Rightarrow> jsstring" where
  "nat_digits n = (if n < 10 then [48 + n] else nat_digits (n div 10) @ [48 + n mod 10])"

declare nat_digits.simps [simp del]

definition int_digits :: "int \<Rightarrow> jsstring" where
  "int_digits k = (if k < 0 then js ''-'' @ nat_digits (nat (- k)) else nat_digits (nat k))"

text \<open>
  What the script cannot compute by itself comes from the host: the locale-dependent
  date formatting, the engine's shortest decimal rendering of a number that is not a
  small integer, and the message of an engine-raised \<^verbatim>\<open>TypeError\<close>.
\<close>

datatype date_format = WeekdayHourMinute | Weekday | MonthDay | HourMinute

record host =
  toLocale :: "date_format \<Rightarrow> jsstring option \<Rightarrow> jsstring"
  fractionToString :: "rat \<Rightarrow> jsstring"
  typeErrorMessage :: jsstring

text \<open>
  \<^verbatim>\<open>Number::toString\<close>: an integer below \<open>10\<^sup>2\<^sup>1\<close> in magnitude prints as its decimal
  digits (\<open>-0\<close> and \<open>0\<close> both as \<^verbatim>\<open>0\<close>); every other number through the host.
\<close>

definition NumberToString :: "host \<Rightarrow> number \<Rightarrow> jsstring" where
  "NumberToString h n =
     (case n of
        NaN \<Rightarrow> js ''NaN''
      | Fin r \<Rightarrow>
          if r = of_int \<lfloor>r\<rfloor> \<and> \<bar>r\<bar> < 10 ^ 21 then int_digits \<lfloor>r\<rfloor>
          else fractionToString h r)"

text \<open>
  \<^verbatim>\<open>Number.prototype.toFixed(f)\<close> on a finite number: the sign is split off, the
  magnitude is scaled by \<open>10\<^sup>f\<close> and rounded to the nearest integer (the larger one at a
  tie), and the digits are padded with zeros to \<open>f + 1\<close> places.
\<close>

definition toFixed :: "host \<Rightarrow> nat \<Rightarrow> rat \<Rightarrow> jsstring" where
  "toFixed h f x =
     (if \<bar>x\<bar> \<ge> 10 ^ 21 then NumberToString h (Fin x)
      else
        let sgn = (if x < 0 then js ''-'' else []);
            n = nat \<lfloor>\<bar>x\<bar> * 10 ^ f + 1 / 2\<rfloor>;
            m = (if n = 0 then js ''0'' else nat_digits n);
            m' = (if f \<noteq> 0 \<and> length m \<le> f then replicate (f + 1 - length m) 48 @ m else m)
        in if f = 0 then sgn @ m'
           else sgn @ take (length m' - f) m' @ js ''.'' @ drop (length m' - f) m')"

text \<open>An exception, as far as the script looks at it: its \<^verbatim>\<open>message\<close>.\<close>

datatype exn = Exn (message: jsstring)

text \<open>\<^verbatim>\<open>err?.message || fallback\<close>: the empty string is falsy.\<close>

definition message_or :: "exn \<Rightarrow> jsstring \<Rightarrow> jsstring" where
  "message_or e fallback = (if message e = [] then fallback else message e)"

text \<open>Reading an array out of range gives \<^verbatim>\<open>undefined\<close>.\<close>

definition at_index :: "jsval list \<Rightarrow> nat \<Rightarrow> jsval" where
  "at_index xs i = (if i < length xs then xs ! i else Undefined)"

section \<open>The payloads of the two services\<close>

record current =
  c_time :: "jsstring option"
  c_temperature_2m :: jsval
  c_apparent_temperature :: jsval
  c_relative_humidity_2m :: jsval
  c_precipitation :: jsval
  c_weather_code :: jsval
  c_wind_speed_10m :: jsval

record hourly =
  h_time :: "jsstring list option"
  h_temperature_2m :: "jsval list option"
  h_precipitation_probability :: "jsval list option"
  h_precipitation :: "jsval list option"
  h_wind_speed_10m :: "jsval list option"

record daily =
  d_time :: "jsstring list option"
  d_temperature_2m_max :: "jsval list option"
  d_temperature_2m_min :: "jsval list option"
  d_precipitation_sum :: "jsval list option"
  d_precipitation_probability_max :: "jsval list option"
  d_weather_code :: "jsval list option"

record forecast_data =
  current :: "current option"
  hourly :: "hourly option"
  daily :: "daily option"

record candidate =
  r_name :: jsstring
  r_admin1 :: "jsstring option"
  r_country :: "jsstring option"
  r_latitude :: jsval
  r_longitude :: jsval

text \<open>The geocoding body \<^verbatim>\<open>g\<close>: \<^verbatim>\<open>null\<close>, or an object whose \<^verbatim>\<open>results\<close> may be missing.\<close>

record geo_body =
  results :: "candidate list option"

text \<open>
  How an awaited \<^verbatim>\<open>fetch(url)\<close> followed by \<^verbatim>\<open>res.json()\<close> ends: the fetch rejects
  (no connectivity), the response is not \<^verbatim>\<open>ok\<close>, the body parses, or parsing rejects.
\<close>

datatype 'a reply = Rejects exn | NotOk | OkJson 'a | OkInvalid exn

text \<open>The requests the script hands to \<^verbatim>\<open>fetch\<close>, by the parameters of their URL.\<close>

datatype request =
    Geocoding jsstring
  | Forecast jsval jsval jsstring jsstring jsstring

section \<open>Weather codes\<close>

record wx =
  wx_t :: jsstring
  wx_i :: jsstring

definition weather_map :: "(int \<times> wx) list" where
  "weather_map =
    [(0,  \<lparr>wx_t = js ''Clear sky'', wx_i = [9728, 65039]\<rparr>),
     (1,  \<lparr>wx_t = js ''Mainly clear'', wx_i = [55356, 57124, 65039]\<rparr>),
     (2,  \<lparr>wx_t = js ''Partly cloudy'', wx_i = [9925]\<rparr>),
     (3,  \<lparr>wx_t = js ''Overcast'', wx_i = [9729, 65039]\<rparr>),
     (45, \<lparr>wx_t = js ''Fog'', wx_i = [55356, 57131, 65039]\<rparr>),
     (48, \<lparr>wx_t = js ''Depositing rime fog'', wx_i = [55356, 57131, 65039]\<rparr>),
     (51, \<lparr>wx_t = js ''Light drizzle'', wx_i = [55356, 57126, 65039]\<rparr>),
     (53, \<lparr>wx_t = js ''Drizzle'', wx_i = [55356, 57126, 65039]\<rparr>),
     (55, \<lparr>wx_t = js ''Dense drizzle'', wx_i = [55356, 57127, 65039]\<rparr>),
     (56, \<lparr>wx_t = js ''Freezing drizzle'', wx_i = [55356, 57127, 65039]\<rparr>),
     (57, \<lparr>wx_t = js ''Freezing drizzle'', wx_i = [55356, 57127, 65039]\<rparr>),
     (61, \<lparr>wx_t = js ''Slight rain'', wx_i = [55356, 57127, 65039]\<rparr>),
     (63, \<lparr>wx_t = js ''Rain'', wx_i = [55356, 57127, 65039]\<rparr>),
     (65, \<lparr>wx_t = js ''Heavy rain'', wx_i = [9928, 65039]\<rparr>),
     (66, \<lparr>wx_t = js ''Freezing rain'', wx_i = [55356, 57127, 65039]\<rparr>),
     (67, \<lparr>wx_t = js ''Freezing rain'', wx_i = [55356, 57127, 65039]\<rparr>),
     (71, \<lparr>wx_t = js ''Slight snow'', wx_i = [55356, 57128, 65039]\<rparr>),
     (73, \<lparr>wx_t = js ''Snow'', wx_i = [55356, 57128, 65039]\<rparr>),
     (75, \<lparr>wx_t = js ''Heavy snow'', wx_i = [10052, 65039]\<rparr>),
     (77, \<lparr>wx_t = js ''Snow grains'', wx_i = [55356, 57128, 65039]\<rparr>),
     (80, \<lparr>wx_t = js ''Rain showers'', wx_i = [55356, 57126, 65039]\<rparr>),
     (81, \<lparr>wx_t = js ''Rain showers'', wx_i = [55356, 57126, 65039]\<rparr>),
     (82, \<lparr>wx_t = js ''Violent showers'', wx_i = [9928, 65039]\<rparr>),
     (85, \<lparr>wx_t = js ''Snow showers'', wx_i = [55356, 57128, 65039]\<rparr>),
     (86, \<lparr>wx_t = js ''Heavy snow showers'', wx_i = [10052, 65039]\<rparr>),
     (95, \<lparr>wx_t = js ''Thunderstorm'', wx_i = [9928, 65039]\<rparr>),
     (96, \<lparr>wx_t = js ''Thunderstorm w/ hail'', wx_i = [9928, 65039]\<rparr>),
     (99, \<lparr>wx_t = js ''Thunderstorm w/ hail'', wx_i = [9928, 65039]\<rparr>)]"

definition unknown_wx :: wx where
  "unknown_wx = \<lparr>wx_t = js ''Unknown'', wx_i = [55356, 57121, 65039]\<rparr>"

text \<open>
  \<^verbatim>\<open>map[code]\<close> converts the code to a property key.  A number that is an integer below
  \<open>10\<^sup>2\<^sup>1\<close> has its decimal digits as key, so it finds the entry of that integer; the
  key of any other number, and the keys \<^verbatim>\<open>undefined\<close> and \<^verbatim>\<open>null\<close>, name no entry.
\<close>

definition map_lookup :: "jsval \<Rightarrow> wx option" where
  "map_lookup code =
     (case code of
        Num r \<Rightarrow> if r = of_int \<lfloor>r\<rfloor> \<and> \<bar>r\<bar> < 10 ^ 21 then map_of weather_map \<lfloor>r\<rfloor> else None
      | _ \<Rightarrow> None)"

text \<open>\<^verbatim>\<open>map[code] || {t:"Unknown", ...}\<close>: an entry is an object, hence truthy.\<close>

definition decodeWeatherCode :: "jsval \<Rightarrow> wx" where
  "decodeWeatherCode code =
     (case map_lookup code of Some w \<Rightarrow> w | None \<Rightarrow> unknown_wx)"


section \<open>Page state\<close>

record place =
  p_name :: jsstring
  p_lat :: jsval
  p_lon :: jsval
  p_tz :: jsstring

text \<open>A chart widget, by the configuration it was constructed with.\<close>

record chart =
  ch_type :: jsstring
  ch_labels :: "jsstring list"
  ch_label :: jsstring
  ch_data :: "jsval list"
  ch_ytitle :: jsstring
  ch_suggestedMax :: "nat option"
  ch_destroyed :: bool

record series =
  labels :: "jsstring list"
  temps :: "jsval list"
  rainP :: "jsval list"
  wind :: "jsval list"

text \<open>The text of one card of the forecast grid.\<close>

record fcard =
  fDay :: jsstring
  fDate :: jsstring
  fIcon_title :: jsstring
  fIcon :: jsstring
  fTemps :: jsstring
  fRain :: jsstring

text \<open>
  The script's global variables, the parts of the page it writes (an element's
  \<^verbatim>\<open>textContent\<close> under the element's name, a \<^verbatim>\<open>hidden\<close> or \<^verbatim>\<open>show\<close> class as a flag),
  and the host state it acts on: whether \<^verbatim>\<open>window.Chart\<close> exists, the requests handed
  to \<^verbatim>\<open>fetch\<close> so far, the pending timers (handle and due time, in milliseconds), the
  next timer handle and the clock.
\<close>

record ui =
  unit :: jsstring
  currentPlace :: place
  tempChart :: "chart option"
  rainChart :: "chart option"
  windChart :: "chart option"
  debounceTimer :: "nat option"
  lastSuggestions :: "candidate list"
  cityInput_value :: jsstring
  suggestions_items :: "candidate list"
  suggestions_show :: bool
  unitBtn_text :: jsstring
  placePill :: jsstring
  timePill :: jsstring
  statusPill :: jsstring
  loading_hidden :: bool
  errorBox_hidden :: bool
  errorTitle :: jsstring
  errorSub :: jsstring
  tempNow :: jsstring
  tempFeel :: jsstring
  windNow :: jsstring
  humNow :: jsstring
  rainNow :: jsstring
  precipNow :: jsstring
  tempUnit :: jsstring
  feelUnit :: jsstring
  windUnit :: jsstring
  rainUnit :: jsstring
  conditionBadge :: jsstring
  wxIcon :: jsstring
  wxMain :: jsstring
  wxSub :: jsstring
  forecastGrid :: "fcard list"
  forecastChip :: jsstring
  window_Chart :: bool
  requests :: "request list"
  timers :: "(nat \<times> nat) list"
  nextTimerId :: nat
  now :: nat

text \<open>
  The state when the script has run its declarations: the globals as the script
  initialises them, an empty page, the charting library loaded, nothing requested.
\<close>

definition initial :: ui where
  "initial =
     \<lparr>unit = js ''C'',
      currentPlace = \<lparr>p_name = DASH, p_lat = Null, p_lon = Null, p_tz = js ''auto''\<rparr>,
      tempChart = None, rainChart = None, windChart = None,
      debounceTimer = None, lastSuggestions = [],
      cityInput_value = [], suggestions_items = [], suggestions_show = False,
      unitBtn_text = [], placePill = [], timePill = [], statusPill = [],
      loading_hidden = True, errorBox_hidden = True, errorTitle = [], errorSub = [],
      tempNow = [], tempFeel = [], windNow = [], humNow = [], rainNow = [], precipNow = [],
      tempUnit = [], feelUnit = [], windUnit = [], rainUnit = [],
      conditionBadge = [], wxIcon = [], wxMain = [], wxSub = [],
      forecastGrid = [], forecastChip = [],
      window_Chart = True, requests = [], timers = [], nextTimerId = 1, now = 0\<rparr>"

section \<open>Helpers\<close>

definition setLoading :: "bool \<Rightarrow> ui \<Rightarrow> ui" where
  "setLoading isLoading s =
     s\<lparr>loading_hidden := \<not> isLoading,
       statusPill := (if isLoading then js ''Loading'' @ ELLIPSIS else js ''Ready'')\<rparr>"

definition showError :: "jsstring \<Rightarrow> jsstring \<Rightarrow> ui \<Rightarrow> ui" where
  "showError title subtitle s =
     s\<lparr>errorBox_hidden := False, errorTitle := title, errorSub := subtitle,
       statusPill := js ''Error''\<rparr>"

definition clearError :: "ui \<Rightarrow> ui" where
  "clearError s = s\<lparr>errorBox_hidden := True\<rparr>"

text \<open>
  \<^verbatim>\<open>formatLocalTime\<close>: \<^verbatim>\<open>toLocaleString\<close> of a date does not throw (an unparsable
  string gives the text of the invalid date), so the \<^verbatim>\<open>catch\<close> branch is never taken.
\<close>

definition formatLocalTime :: "host \<Rightarrow> jsstring option \<Rightarrow> jsstring" where
  "formatLocalTime h isoString = toLocale h WeekdayHourMinute isoString"

text \<open>The suffix \<^verbatim>\<open>unit === "F" ? "\<degree>F" : "\<degree>C"\<close>.\<close>

definition unitSuffix :: "jsstring \<Rightarrow> jsstring" where
  "unitSuffix u = (if u = js ''F'' then DEGREE @ js ''F'' else DEGREE @ js ''C'')"

definition ensureChartJs :: "ui \<Rightarrow> bool \<times> ui" where
  "ensureChartJs s =
     (if \<not> window_Chart s then
        (False,
         showError (js ''Could not load charts'')
           (js ''Chart.js is not available (CDN blocked / offline). Change CDN in index.html or use another network.'')
           s)
      else (True, s))"

section \<open>API calls\<close>

text \<open>
  An \<^verbatim>\<open>async\<close> function runs up to its \<^verbatim>\<open>await\<close>, and resumes when the awaited
  promise settles.  The part before the \<^verbatim>\<open>await\<close> records the request; \<open>awaited\<close> is
  what the rest of \<^verbatim>\<open>geocode\<close> and \<^verbatim>\<open>forecast\<close> makes of the reply.
\<close>

definition awaited :: "jsstring \<Rightarrow> 'a reply \<Rightarrow> exn + 'a" where
  "awaited failed rep =
     (case rep of
        Rejects e \<Rightarrow> Inl e
      | NotOk \<Rightarrow> Inl (Exn failed)
      | OkJson body \<Rightarrow> Inr body
      | OkInvalid e \<Rightarrow> Inl e)"

definition geocode :: "jsstring \<Rightarrow> ui \<Rightarrow> ui" where
  "geocode query s = s\<lparr>requests := requests s @ [Geocoding query]\<rparr>"

definition geocode_result :: "geo_body option reply \<Rightarrow> exn + geo_body option" where
  "geocode_result rep = awaited (js ''Geocoding request failed.'') rep"

definition forecast :: "jsval \<Rightarrow> jsval \<Rightarrow> jsstring \<Rightarrow> ui \<Rightarrow> ui" where
  "forecast lat lon tz s =
     (let tempUnitParam = (if unit s = js ''F'' then js ''fahrenheit'' else js ''celsius'');
          windUnitParam = js ''kmh''
      in s\<lparr>requests := requests s @ [Forecast lat lon tz tempUnitParam windUnitParam]\<rparr>)"

definition forecast_result :: "forecast_data reply \<Rightarrow> exn + forecast_data" where
  "forecast_result rep = awaited (js ''Forecast request failed.'') rep"

section \<open>UI updates\<close>

definition setPlace :: "jsstring \<Rightarrow> jsval \<Rightarrow> jsval \<Rightarrow> jsstring \<Rightarrow> ui \<Rightarrow> ui" where
  "setPlace name lat lon tz s =
     s\<lparr>currentPlace := \<lparr>p_name = name, p_lat = lat, p_lon = lon, p_tz = tz\<rparr>,
       placePill := name\<rparr>"

definition setTimePill :: "host \<Rightarrow> jsstring option \<Rightarrow> ui \<Rightarrow> ui" where
  "setTimePill h nowIso s = s\<lparr>timePill := js ''Updated: '' @ formatLocalTime h nowIso\<rparr>"

text \<open>
  \<^verbatim>\<open>Array.prototype.indexOf\<close> on the timestamps: the first index holding a string equal
  to the one searched for; no string equals \<^verbatim>\<open>undefined\<close>.
\<close>

fun index_of :: "jsstring list \<Rightarrow> jsstring \<Rightarrow> nat option" where
  "index_of [] x = None"
| "index_of (y # ys) x = (if y = x then Some 0 else map_option Suc (index_of ys x))"

definition indexOf :: "jsstring list \<Rightarrow> jsstring option \<Rightarrow> nat option" where
  "indexOf ts x = (case x of None \<Rightarrow> None | Some v \<Rightarrow> index_of ts v)"

text \<open>
  \<^verbatim>\<open>getClosestHourly\<close>: reading a property of \<^verbatim>\<open>undefined\<close> throws, and the
  \<^verbatim>\<open>catch\<close> turns every throw into \<^verbatim>\<open>null\<close>.
\<close>

definition getClosestHourly :: "forecast_data \<Rightarrow> (hourly \<Rightarrow> jsval list option) \<Rightarrow> jsval" where
  "getClosestHourly data key =
     (case current data of
        None \<Rightarrow> Null
      | Some c \<Rightarrow>
         (case hourly data of
            None \<Rightarrow> Null
          | Some hr \<Rightarrow>
             (case h_time hr of
                None \<Rightarrow> Null
              | Some ts \<Rightarrow>
                 (case indexOf ts (c_time c) of
                    Some idx \<Rightarrow> (case key hr of None \<Rightarrow> Null | Some xs \<Rightarrow> at_index xs idx)
                  | None \<Rightarrow> (case key hr of None \<Rightarrow> Null | Some xs \<Rightarrow> at_index xs 0)))))"

text \<open>What \<^verbatim>\<open>rainNow\<close> shows for a value returned by \<^verbatim>\<open>getClosestHourly\<close>.\<close>

definition rainText :: "host \<Rightarrow> jsval \<Rightarrow> jsstring" where
  "rainText h rainProb =
     (if \<not> nullish rainProb then NumberToString h (Math_round rainProb) else DASH)"

text \<open>\<^verbatim>\<open>v ?? "\<emdash>"\<close> as text.\<close>

definition orDash :: "host \<Rightarrow> jsval \<Rightarrow> jsstring" where
  "orDash h v = (case v of Num r \<Rightarrow> NumberToString h (Fin r) | _ \<Rightarrow> DASH)"

text \<open>\<^verbatim>\<open>(v ?? 0).toFixed(1)\<close>.\<close>

definition orZeroFixed1 :: "host \<Rightarrow> jsval \<Rightarrow> jsstring" where
  "orZeroFixed1 h v = toFixed h 1 (case v of Num r \<Rightarrow> r | _ \<Rightarrow> 0)"

text \<open>
  A function that can throw after it has written to the page returns the exception, if
  any, together with the state it leaves.
\<close>

definition setTodayCard :: "host \<Rightarrow> forecast_data \<Rightarrow> ui \<Rightarrow> exn option \<times> ui" where
  "setTodayCard h data s =
     (case current data of
        None \<Rightarrow> (Some (Exn (typeErrorMessage h)), s)
      | Some c \<Rightarrow>
         (let w = decodeWeatherCode (c_weather_code c);
              rainProb = getClosestHourly data h_precipitation_probability;
              s1 = s\<lparr>wxIcon := wx_i w, wxMain := wx_t w, conditionBadge := wx_t w,
                     tempNow := NumberToString h (Math_round (c_temperature_2m c)),
                     tempFeel := NumberToString h (Math_round (c_apparent_temperature c)),
                     windNow := NumberToString h (Math_round (c_wind_speed_10m c)),
                     humNow := orDash h (c_relative_humidity_2m c),
                     precipNow := orZeroFixed1 h (c_precipitation c),
                     rainNow := rainText h rainProb,
                     tempUnit := unitSuffix (unit s),
                     feelUnit := unitSuffix (unit s),
                     windUnit := js ''km/h'',
                     rainUnit := js ''%''\<rparr>
          in case (p_lat (currentPlace s), p_lon (currentPlace s)) of
               (Num la, Num lo) \<Rightarrow>
                 (None,
                  s1\<lparr>wxSub := js ''Lat '' @ toFixed h 2 la @ js '' '' @ BULLET @ js '' Lon ''
                               @ toFixed h 2 lo\<rparr>)
             | _ \<Rightarrow> (Some (Exn (typeErrorMessage h)), s1)))"

text \<open>
  One card of \<^verbatim>\<open>buildForecastCards\<close>, for day \<open>k\<close>.  Indexing an array that is
  \<^verbatim>\<open>undefined\<close> throws; indexing past the end of one that exists gives \<^verbatim>\<open>undefined\<close>.
\<close>

definition forecastCard :: "host \<Rightarrow> jsstring \<Rightarrow> daily \<Rightarrow> jsstring list \<Rightarrow> nat \<Rightarrow> exn + fcard" where
  "forecastCard h u d days k =
     (case (d_weather_code d, d_temperature_2m_min d, d_temperature_2m_max d,
            d_precipitation_probability_max d, d_precipitation_sum d) of
        (Some wcode, Some tmin, Some tmax, Some pmax, Some psum) \<Rightarrow>
          (let dayName = toLocale h Weekday (Some (days ! k));
               dateName = toLocale h MonthDay (Some (days ! k));
               w = decodeWeatherCode (at_index wcode k)
           in Inr \<lparr>fDay = dayName, fDate = dateName, fIcon_title = wx_t w, fIcon = wx_i w,
                   fTemps = NumberToString h (Math_round (at_index tmin k)) @ unitSuffix u
                            @ js '' '' @ BULLET @ js '' ''
                            @ NumberToString h (Math_round (at_index tmax k)) @ unitSuffix u,
                   fRain = js ''Rain: '' @ orDash h (at_index pmax k) @ js ''% '' @ BULLET
                           @ js '' Precip: '' @ orZeroFixed1 h (at_index psum k) @ js '' mm''\<rparr>)
      | _ \<Rightarrow> Inl (Exn (typeErrorMessage h)))"

text \<open>The \<^verbatim>\<open>for\<close> loop of \<^verbatim>\<open>buildForecastCards\<close> over the indices still to do.\<close>

fun cards_loop :: "host \<Rightarrow> daily \<Rightarrow> jsstring list \<Rightarrow> nat list \<Rightarrow> ui \<Rightarrow> exn option \<times> ui" where
  "cards_loop h d days [] s = (None, s)"
| "cards_loop h d days (k # ks) s =
     (case forecastCard h (unit s) d days k of
        Inl e \<Rightarrow> (Some e, s)
      | Inr fc \<Rightarrow> cards_loop h d days ks (s\<lparr>forecastGrid := forecastGrid s @ [fc]\<rparr>))"

definition buildForecastCards :: "host \<Rightarrow> forecast_data \<Rightarrow> ui \<Rightarrow> exn option \<times> ui" where
  "buildForecastCards h data s =
     (case daily data of
        None \<Rightarrow> (Some (Exn (typeErrorMessage h)), s)
      | Some d \<Rightarrow>
         (let s0 = s\<lparr>forecastGrid := []\<rparr>
          in case d_time d of
               None \<Rightarrow> (Some (Exn (typeErrorMessage h)), s0)
             | Some days \<Rightarrow>
                (case cards_loop h d days [0 ..< length days] s0 of
                   (Some e, s1) \<Rightarrow> (Some e, s1)
                 | (None, s1) \<Rightarrow>
                     (None,
                      s1\<lparr>forecastChip := js ''Daily '' @ BULLET @ js '' '' @ unitSuffix (unit s1)\<rparr>))))"

text \<open>\<^verbatim>\<open>xs.slice(0, 24)\<close> is \<open>take 24 xs\<close>.\<close>

definition next24HoursSeries :: "host \<Rightarrow> forecast_data \<Rightarrow> exn + series" where
  "next24HoursSeries h data =
     (case hourly data of
        None \<Rightarrow> Inl (Exn (typeErrorMessage h))
      | Some hr \<Rightarrow>
         (case (h_time hr, h_temperature_2m hr, h_precipitation_probability hr,
                h_wind_speed_10m hr) of
            (Some ts, Some tmp, Some rp, Some wnd) \<Rightarrow>
              Inr \<lparr>labels = map (\<lambda>x. toLocale h HourMinute (Some x)) (take 24 ts),
                   temps = take 24 tmp,
                   rainP = take 24 rp,
                   wind = take 24 wnd\<rparr>
          | _ \<Rightarrow> Inl (Exn (typeErrorMessage h))))"

section \<open>Charts\<close>

definition destroy :: "chart option \<Rightarrow> chart option" where
  "destroy c = map_option (\<lambda>ch. ch\<lparr>ch_destroyed := True\<rparr>) c"

definition destroyCharts :: "ui \<Rightarrow> ui" where
  "destroyCharts s =
     s\<lparr>tempChart := destroy (tempChart s),
       rainChart := destroy (rainChart s),
       windChart := destroy (windChart s)\<rparr>"

definition makeCharts :: "series \<Rightarrow> ui \<Rightarrow> ui" where
  "makeCharts sr s =
     (case ensureChartJs s of
        (False, s1) \<Rightarrow> s1
      | (True, s1) \<Rightarrow>
         (let s2 = destroyCharts s1
          in s2\<lparr>tempChart :=
                  Some \<lparr>ch_type = js ''line'', ch_labels = labels sr, ch_label = js ''Temp'',
                        ch_data = temps sr, ch_ytitle = unitSuffix (unit s2),
                        ch_suggestedMax = None, ch_destroyed = False\<rparr>,
                rainChart :=
                  Some \<lparr>ch_type = js ''bar'', ch_labels = labels sr, ch_label = js ''Rain %'',
                        ch_data = map (\<lambda>v. if nullish v then Num 0 else v) (rainP sr),
                        ch_ytitle = js ''%'', ch_suggestedMax = Some 100,
                        ch_destroyed = False\<rparr>,
                windChart :=
                  Some \<lparr>ch_type = js ''line'', ch_labels = labels sr, ch_label = js ''Wind'',
                        ch_data = wind sr, ch_ytitle = js ''km/h'',
                        ch_suggestedMax = None, ch_destroyed = False\<rparr>\<rparr>))"

section \<open>Main flow\<close>

text \<open>\<^verbatim>\<open>loadWeatherByCoords\<close> up to its \<^verbatim>\<open>await forecast(...)\<close>.\<close>

definition loadWeatherByCoords_start :: "jsval \<Rightarrow> jsval \<Rightarrow> jsstring \<Rightarrow> jsstring \<Rightarrow> ui \<Rightarrow> ui" where
  "loadWeatherByCoords_start lat lon label tz s =
     forecast lat lon tz (setPlace label lat lon tz (setLoading True (clearError s)))"

text \<open>The rest of the \<^verbatim>\<open>try\<close> block, once the forecast has arrived.\<close>

definition render :: "host \<Rightarrow> forecast_data \<Rightarrow> ui \<Rightarrow> exn option \<times> ui" where
  "render h data s =
     (case current data of
        None \<Rightarrow> (Some (Exn (typeErrorMessage h)), s)
      | Some c \<Rightarrow>
         (case setTodayCard h data (setTimePill h (c_time c) s) of
            (Some e, s2) \<Rightarrow> (Some e, s2)
          | (None, s2) \<Rightarrow>
             (case buildForecastCards h data s2 of
                (Some e, s3) \<Rightarrow> (Some e, s3)
              | (None, s3) \<Rightarrow>
                 (case next24HoursSeries h data of
                    Inl e \<Rightarrow> (Some e, s3)
                  | Inr sr \<Rightarrow> (None, (makeCharts sr s3)\<lparr>statusPill := js ''Updated''\<rparr>)))))"

text \<open>
  \<^verbatim>\<open>loadWeatherByCoords\<close> from the moment the awaited forecast settles: the rest of the
  \<^verbatim>\<open>try\<close>, the \<^verbatim>\<open>catch\<close> and the \<^verbatim>\<open>finally\<close>.
\<close>

definition loadWeatherByCoords_resume :: "host \<Rightarrow> forecast_data reply \<Rightarrow> ui \<Rightarrow> ui" where
  "loadWeatherByCoords_resume h rep s =
     (let (thrown, s1) =
            (case forecast_result rep of
               Inl e \<Rightarrow> (Some e, s)
             | Inr data \<Rightarrow> render h data s);
          s2 = (case thrown of
                  None \<Rightarrow> s1
                | Some err \<Rightarrow>
                    showError (js ''Could not load weather'')
                      (message_or err (js ''Check your internet and try again.'')) s1)
      in setLoading False s2)"

text \<open>A whole load sequence with nothing else running in between.\<close>

definition loadWeatherByCoords ::
  "host \<Rightarrow> jsval \<Rightarrow> jsval \<Rightarrow> jsstring \<Rightarrow> jsstring \<Rightarrow> forecast_data reply \<Rightarrow> ui \<Rightarrow> ui" where
  "loadWeatherByCoords h lat lon label tz rep s =
     loadWeatherByCoords_resume h rep (loadWeatherByCoords_start lat lon label tz s)"

text \<open>\<^verbatim>\<open>x ? ", " + x : ""\<close> for an optional string: a missing or empty one is falsy.\<close>

definition commaPart :: "jsstring option \<Rightarrow> jsstring" where
  "commaPart x = (case x of None \<Rightarrow> [] | Some v \<Rightarrow> if v = [] then [] else js '', '' @ v)"

definition placeLabel :: "candidate \<Rightarrow> jsstring" where
  "placeLabel r = r_name r @ commaPart (r_admin1 r) @ commaPart (r_country r)"

text \<open>\<^verbatim>\<open>loadWeatherByCityName\<close> up to its \<^verbatim>\<open>await geocode(name)\<close>.\<close>

definition loadWeatherByCityName_start :: "jsstring \<Rightarrow> ui \<Rightarrow> ui" where
  "loadWeatherByCityName_start name s = geocode name (setLoading True (clearError s))"

text \<open>
  From the moment the geocoding reply settles up to the end of the function; the second
  reply is the forecast's, awaited only when there is a first result.
\<close>

definition loadWeatherByCityName_resume ::
  "host \<Rightarrow> geo_body option reply \<Rightarrow> forecast_data reply \<Rightarrow> ui \<Rightarrow> ui" where
  "loadWeatherByCityName_resume h grep frep s =
     (case geocode_result grep of
        Inl err \<Rightarrow>
          setLoading False
            (showError (js ''City search failed'') (message_or err (js ''Try again.'')) s)
      | Inr g \<Rightarrow>
         (case (case g of None \<Rightarrow> [] | Some b \<Rightarrow> (case results b of None \<Rightarrow> [] | Some rs \<Rightarrow> rs)) of
            [] \<Rightarrow>
              setLoading False
                (showError (js ''No results'')
                   (js ''Try a different city name (example: Pune, Kathmandu, Patna).'') s)
          | r # rest \<Rightarrow>
              setLoading False
                (loadWeatherByCoords h (r_latitude r) (r_longitude r) (placeLabel r)
                   (js ''auto'') frep s)))"

definition loadWeatherByCityName ::
  "host \<Rightarrow> jsstring \<Rightarrow> geo_body option reply \<Rightarrow> forecast_data reply \<Rightarrow> ui \<Rightarrow> ui" where
  "loadWeatherByCityName h name grep frep s =
     loadWeatherByCityName_resume h grep frep (loadWeatherByCityName_start name s)"

section \<open>Autocomplete\<close>

definition hideSuggestions :: "ui \<Rightarrow> ui" where
  "hideSuggestions s = s\<lparr>suggestions_show := False\<rparr>"

text \<open>
  Each item of the list shows one candidate, and its click handler closes over that
  candidate; the list is kept as the candidates shown.
\<close>

definition showSuggestions :: "candidate list \<Rightarrow> ui \<Rightarrow> ui" where
  "showSuggestions items s =
     (let s1 = s\<lparr>lastSuggestions := items, suggestions_items := []\<rparr>
      in if items = [] then hideSuggestions s1
         else s1\<lparr>suggestions_items := items, suggestions_show := True\<rparr>)"

text \<open>
  \<^verbatim>\<open>String.prototype.trim\<close> removes white space and line terminators from both ends.
\<close>

definition is_ws :: "nat \<Rightarrow> bool" where
  "is_ws c \<longleftrightarrow>
     c \<in> {9, 10, 11, 12, 13, 32, 160, 5760, 8232, 8233, 8239, 8287, 12288, 65279}
     \<or> (8192 \<le> c \<and> c \<le> 8202)"

definition trim :: "jsstring \<Rightarrow> jsstring" where
  "trim v = rev (dropWhile is_ws (rev (dropWhile is_ws v)))"

text \<open>\<^verbatim>\<open>handleAutocomplete\<close> up to its \<^verbatim>\<open>await geocode(q)\<close>, or to its early return.\<close>

definition handleAutocomplete_start :: "ui \<Rightarrow> ui" where
  "handleAutocomplete_start s =
     (let q = trim (cityInput_value s)
      in if length q < 2 then hideSuggestions s else geocode q s)"

definition handleAutocomplete_resume :: "geo_body option reply \<Rightarrow> ui \<Rightarrow> ui" where
  "handleAutocomplete_resume grep s =
     (case geocode_result grep of
        Inl err \<Rightarrow> hideSuggestions s
      | Inr g \<Rightarrow>
          showSuggestions
            (case g of None \<Rightarrow> [] | Some b \<Rightarrow> (case results b of None \<Rightarrow> [] | Some rs \<Rightarrow> rs)) s)"

text \<open>The click handler of the item showing \<open>r\<close>, up to the \<^verbatim>\<open>await\<close> of the load.\<close>

definition suggestion_click :: "candidate \<Rightarrow> ui \<Rightarrow> ui" where
  "suggestion_click r s =
     loadWeatherByCoords_start (r_latitude r) (r_longitude r) (placeLabel r) (js ''auto'')
       (hideSuggestions (s\<lparr>cityInput_value := r_name r @ commaPart (r_country r)\<rparr>))"

section \<open>Timers\<close>

text \<open>
  The only callback the script ever schedules is \<^verbatim>\<open>handleAutocomplete\<close>, so a pending
  timer is its handle and the time it is due.  A handle is a positive integer.
\<close>

definition setTimeout :: "nat \<Rightarrow> ui \<Rightarrow> nat \<times> ui" where
  "setTimeout delay s =
     (nextTimerId s,
      s\<lparr>timers := timers s @ [(nextTimerId s, now s + delay)],
        nextTimerId := Suc (nextTimerId s)\<rparr>)"

definition clearTimeout :: "nat \<Rightarrow> ui \<Rightarrow> ui" where
  "clearTimeout ident s = s\<lparr>timers := filter (\<lambda>(j, due). j \<noteq> ident) (timers s)\<rparr>"

text \<open>A timer that is still pending fires: it leaves the list and its callback runs.\<close>

definition fire :: "nat \<times> nat \<Rightarrow> ui \<Rightarrow> ui" where
  "fire tm s =
     (if tm \<in> set (timers s)
      then handleAutocomplete_start ((clearTimeout (fst tm) s)\<lparr>now := max (now s) (snd tm)\<rparr>)
      else s)"

text \<open>
  The clock moves to \<open>time\<close>: the timers due by then fire, in the order they were set
  (all have the same delay), and a timer due at \<open>time\<close> fires before an event at \<open>time\<close>.
\<close>

definition advance :: "nat \<Rightarrow> ui \<Rightarrow> ui" where
  "advance time s =
     (let s1 = fold fire (filter (\<lambda>(j, due). due \<le> time) (timers s)) s
      in s1\<lparr>now := max (now s1) time\<rparr>)"

section \<open>Events\<close>

text \<open>The click handler of the search button, up to the \<^verbatim>\<open>await\<close> of the search.\<close>

definition searchBtn_click :: "ui \<Rightarrow> ui" where
  "searchBtn_click s =
     (let q = trim (cityInput_value s)
      in if q = [] then
           showError (js ''Type a city name'') (js ''Example: Pune, Kathmandu, Patna, New York.'') s
         else loadWeatherByCityName_start q (hideSuggestions s))"

text \<open>
  An \<^verbatim>\<open>input\<close> event: the field already holds the new text \<open>v\<close> when the handler runs.
  A timer handle is truthy when it is not \<open>0\<close>.
\<close>

definition cityInput_input :: "jsstring \<Rightarrow> ui \<Rightarrow> ui" where
  "cityInput_input v s =
     (let s1 = clearError (s\<lparr>cityInput_value := v\<rparr>);
          s2 = (case debounceTimer s1 of
                  None \<Rightarrow> s1
                | Some ident \<Rightarrow> if ident \<noteq> 0 then clearTimeout ident s1 else s1);
          (ident, s3) = setTimeout 280 s2
      in s3\<lparr>debounceTimer := Some ident\<rparr>)"

text \<open>A keystroke at time \<open>time\<close> that leaves the text \<open>v\<close> in the field.\<close>

definition keystroke :: "nat \<Rightarrow> jsstring \<Rightarrow> ui \<Rightarrow> ui" where
  "keystroke time v s = cityInput_input v (advance time s)"


text \<open>The initial load.\<close>

definition init :: "ui \<Rightarrow> ui" where
  "init s = loadWeatherByCityName_start (js ''Kathmandu'') s"

section \<open>Well-formed payloads\<close>

text \<open>
  A forecast payload is well formed when it has its three objects and each of them has
  the arrays the script reads.
\<close>

definition well_formed :: "forecast_data \<Rightarrow> bool" where
  "well_formed data =
     (case (current data, hourly data, daily data) of
        (Some c, Some hr, Some d) \<Rightarrow>
          h_time hr \<noteq> None \<and> h_temperature_2m hr \<noteq> None
          \<and> h_precipitation_probability hr \<noteq> None \<and> h_wind_speed_10m hr \<noteq> None
          \<and> d_time d \<noteq> None \<and> d_weather_code d \<noteq> None
          \<and> d_temperature_2m_min d \<noteq> None \<and> d_temperature_2m_max d \<noteq> None
          \<and> d_precipitation_probability_max d \<noteq> None \<and> d_precipitation_sum d \<noteq> None
      | _ \<Rightarrow> False)"

section \<open>The debounce timer's invariant\<close>

text \<open>
  The script keeps the handle of the last timer it set in \<^verbatim>\<open>debounceTimer\<close> and sets no
  other timer, so every pending timer is the one \<^verbatim>\<open>debounceTimer\<close> names, and handles
  are positive.
\<close>

definition timers_ok :: "ui \<Rightarrow> bool" where
  "timers_ok s \<longleftrightarrow>
     0 < nextTimerId s
     \<and> list_all (\<lambda>tm. debounceTimer s = Some (fst tm) \<and> 0 < fst tm) (timers s)"

section \<open>Sample inputs\<close>

text \<open>
  A host whose date formatting echoes the timestamp, and payloads of the shape the
  forecast service sends, with \<open>n\<close> hourly slots and seven days; they instantiate the
  theorems below at concrete inputs.
\<close>

definition sample_host :: host where
  "sample_host =
     \<lparr>toLocale = (\<lambda>f x. case x of None \<Rightarrow> js ''Invalid Date'' | Some v \<Rightarrow> v),
      fractionToString = (\<lambda>r. js ''?''),
      typeErrorMessage = js ''Cannot read properties of undefined''\<rparr>"

definition sample_hour :: "nat \<Rightarrow> jsstring" where
  "sample_hour k = js ''2024-05-01T'' @ nat_digits k @ js '':00''"

definition sample_hourly :: "nat \<Rightarrow> hourly" where
  "sample_hourly n =
     \<lparr>h_time = Some (map sample_hour [0 ..< n]),
      h_temperature_2m = Some (map (\<lambda>k. Num (of_nat k)) [0 ..< n]),
      h_precipitation_probability = Some (map (\<lambda>k. Num (of_nat (2 * k))) [0 ..< n]),
      h_precipitation = Some (map (\<lambda>k. Num 0) [0 ..< n]),
      h_wind_speed_10m = Some (map (\<lambda>k. Num (of_nat k + 1 / 2)) [0 ..< n])\<rparr>"

definition sample_current :: current where
  "sample_current =
     \<lparr>c_time = Some (sample_hour 3),
      c_temperature_2m = Num (216 / 10),
      c_apparent_temperature = Num (204 / 10),
      c_relative_humidity_2m = Undefined,
      c_precipitation = Num 0,
      c_weather_code = Num 2,
      c_wind_speed_10m = Num (74 / 10)\<rparr>"

definition sample_daily :: daily where
  "sample_daily =
     \<lparr>d_time = Some (map (\<lambda>k. js ''2024-05-0'' @ nat_digits (Suc k)) [0 ..< 7]),
      d_temperature_2m_max = Some (map (\<lambda>k. Num (of_nat (20 + k))) [0 ..< 7]),
      d_temperature_2m_min = Some (map (\<lambda>k. Num (of_nat (10 + k))) [0 ..< 7]),
      d_precipitation_sum = Some (map (\<lambda>k. Num 0) [0 ..< 7]),
      d_precipitation_probability_max = Some (map (\<lambda>k. Num (of_nat (5 * k))) [0 ..< 7]),
      d_weather_code = Some (map (\<lambda>k. Num (of_nat k)) [0 ..< 7])\<rparr>"

definition sample_data :: "nat \<Rightarrow> forecast_data" where
  "sample_data n =
     \<lparr>current = Some sample_current, hourly = Some (sample_hourly n), daily = Some sample_daily\<rparr>"

text \<open>The page after a place has been chosen.\<close>

definition sample_page :: ui where
  "sample_page =
     setPlace (js ''Kathmandu, Nepal'') (Num (277 / 10)) (Num (853 / 10)) (js ''auto'') initial"

section \<open>Weather codes, the chart series and the today card\<close>

lemma weather_map_range:
  "map_of weather_map k = Some w \<Longrightarrow> 0 \<le> k \<and> k \<le> 99"
  unfolding weather_map_def by (simp split: if_splits)

lemma weather_map_nonempty:
  "map_of weather_map k = Some w \<Longrightarrow> wx_t w \<noteq> [] \<and> wx_i w \<noteq> []"
  unfolding weather_map_def by (auto simp: js_def split: if_splits)

lemma map_lookup_int:
  "map_lookup (Num (of_int k)) = map_of weather_map k"
proof (cases "map_of weather_map k")
  case None
  then show ?thesis by (simp add: map_lookup_def)
next
  case (Some w)
  then have "0 \<le> k \<and> k \<le> 99" by (rule weather_map_range)
  then have "\<bar>(of_int k :: rat)\<bar> < 10 ^ 21"
    by (simp add: abs_if)
  then show ?thesis by (simp add: map_lookup_def)
qed

text \<open>
  Claim C1.  \<^verbatim>\<open>decodeWeatherCode\<close> answers every integer code: a code of the table gets
  the table's entry, every other code gets the fallback pair labelled \<^verbatim>\<open>Unknown\<close>, the
  label and the icon returned are never empty, and code \<open>0\<close> is labelled \<^verbatim>\<open>Clear sky\<close>.
\<close>

theorem decodeWeatherCode_total:
  fixes code :: int
  shows "(\<forall>w. map_of weather_map code = Some w \<longrightarrow> decodeWeatherCode (Num (of_int code)) = w)
       \<and> (map_of weather_map code = None \<longrightarrow>
            decodeWeatherCode (Num (of_int code)) = \<lparr>wx_t = js ''Unknown'', wx_i = [55356, 57121, 65039]\<rparr>)
       \<and> wx_t (decodeWeatherCode (Num (of_int code))) \<noteq> []
       \<and> wx_i (decodeWeatherCode (Num (of_int code))) \<noteq> []
       \<and> wx_t (decodeWeatherCode (Num 0)) = js ''Clear sky''"
proof -
  have zero: "wx_t (decodeWeatherCode (Num 0)) = js ''Clear sky''"
    using map_lookup_int [of 0] by (simp add: decodeWeatherCode_def weather_map_def)
  have ne: "wx_t (decodeWeatherCode (Num (of_int code))) \<noteq> [] \<and> wx_i (decodeWeatherCode (Num (of_int code))) \<noteq> []"
    using weather_map_nonempty [of code]
    by (cases "map_of weather_map code") (simp_all add: decodeWeatherCode_def map_lookup_int unknown_wx_def js_def)
  show ?thesis using zero ne
    by (simp add: decodeWeatherCode_def map_lookup_int unknown_wx_def)
qed

text \<open>
  The theorem at code \<open>45\<close>, which the table has, and at \<open>4\<close> and \<open>-7\<close>, which it has not.
\<close>

theorem decodeWeatherCode_total_witness:
  "decodeWeatherCode (Num 45) = \<lparr>wx_t = js ''Fog'', wx_i = [55356, 57131, 65039]\<rparr>
   \<and> decodeWeatherCode (Num 4) = \<lparr>wx_t = js ''Unknown'', wx_i = [55356, 57121, 65039]\<rparr>
   \<and> decodeWeatherCode (Num (- 7)) = \<lparr>wx_t = js ''Unknown'', wx_i = [55356, 57121, 65039]\<rparr>"
  using decodeWeatherCode_total [of 45] decodeWeatherCode_total [of 4] decodeWeatherCode_total [of "- 7"]
  by (simp add: weather_map_def)

lemma index_of_Some:
  "index_of ts x = Some k \<longleftrightarrow> k < length ts \<and> ts ! k = x \<and> (\<forall>j<k. ts ! j \<noteq> x)"
proof (induction ts arbitrary: k)
  case Nil
  show ?case by simp
next
  case (Cons y ys)
  show ?case
  proof (cases "y = x")
    case True
    then show ?thesis by (cases k) auto
  next
    case False
    show ?thesis
    proof (cases k)
      case 0
      with False show ?thesis by auto
    next
      case (Suc m)
      have "(\<forall>j<Suc m. (y # ys) ! j \<noteq> x) \<longleftrightarrow> (\<forall>j<m. ys ! j \<noteq> x)"
        using False by (auto simp: less_Suc_eq_0_disj)
      with False Suc Cons.IH [of m] show ?thesis by auto
    qed
  qed
qed

lemma index_of_None: "index_of ts x = None \<longleftrightarrow> x \<notin> set ts"
  by (induction ts) auto

text \<open>
  Claim C2.  On a payload whose hourly arrays are present, \<^verbatim>\<open>next24HoursSeries\<close> returns
  the first 24 entries of each array, all of them when there are at most 24 (nothing is
  padded), and label \<open>k\<close> is the host's hour:minute rendering of timestamp \<open>k\<close>.
\<close>

theorem next24HoursSeries_first_24:
  assumes "hourly data = Some hr"
    and "h_time hr = Some ts"
    and "h_temperature_2m hr = Some tmp"
    and "h_precipitation_probability hr = Some rp"
    and "h_wind_speed_10m hr = Some wnd"
  shows "\<exists>sr. next24HoursSeries h data = Inr sr
           \<and> labels sr = map (\<lambda>x. toLocale h HourMinute (Some x)) (take 24 ts)
           \<and> temps sr = take 24 tmp \<and> rainP sr = take 24 rp \<and> wind sr = take 24 wnd
           \<and> length (labels sr) = min 24 (length ts)
           \<and> length (temps sr) = min 24 (length tmp)
           \<and> length (rainP sr) = min 24 (length rp)
           \<and> length (wind sr) = min 24 (length wnd)
           \<and> (\<forall>k < length (labels sr). labels sr ! k = toLocale h HourMinute (Some (ts ! k)))
           \<and> (length ts \<le> 24 \<longrightarrow> length (labels sr) = length ts)
           \<and> (length tmp \<le> 24 \<longrightarrow> temps sr = tmp)
           \<and> (length rp \<le> 24 \<longrightarrow> rainP sr = rp)
           \<and> (length wnd \<le> 24 \<longrightarrow> wind sr = wnd)"
  using assms by (simp add: next24HoursSeries_def min_def)

text \<open>
  The theorem on payloads of 24, 10 and 30 hourly entries: 24, 10 and 24 are returned.
\<close>

theorem next24HoursSeries_first_24_witness:
  "(\<exists>sr. next24HoursSeries sample_host (sample_data 24) = Inr sr
       \<and> length (labels sr) = 24 \<and> length (temps sr) = 24
       \<and> length (rainP sr) = 24 \<and> length (wind sr) = 24)
   \<and> (\<exists>sr. next24HoursSeries sample_host (sample_data 10) = Inr sr
       \<and> length (labels sr) = 10 \<and> length (temps sr) = 10
       \<and> length (rainP sr) = 10 \<and> length (wind sr) = 10)
   \<and> (\<exists>sr. next24HoursSeries sample_host (sample_data 30) = Inr sr
       \<and> length (labels sr) = 24 \<and> length (temps sr) = 24
       \<and> length (rainP sr) = 24 \<and> length (wind sr) = 24
       \<and> temps sr = map (\<lambda>k. Num (of_nat k)) [0 ..< 24])"
proof -
  have hy: "hourly (sample_data n) = Some (sample_hourly n)" for n
    by (simp add: sample_data_def)
  have ht: "h_time (sample_hourly n) = Some (map sample_hour [0 ..< n])" for n
    by (simp add: sample_hourly_def)
  have hm: "h_temperature_2m (sample_hourly n) = Some (map (\<lambda>k. Num (of_nat k)) [0 ..< n])" for n
    by (simp add: sample_hourly_def)
  have hr: "h_precipitation_probability (sample_hourly n)
              = Some (map (\<lambda>k. Num (of_nat (2 * k))) [0 ..< n])" for n
    by (simp add: sample_hourly_def)
  have hw: "h_wind_speed_10m (sample_hourly n)
              = Some (map (\<lambda>k. Num (of_nat k + 1 / 2)) [0 ..< n])" for n
    by (simp add: sample_hourly_def)
  from next24HoursSeries_first_24 [OF hy [of 24] ht hm hr hw, where h = sample_host] obtain sr1 where a: "next24HoursSeries sample_host (sample_data 24) = Inr sr1"
      "length (labels sr1) = 24" "length (temps sr1) = 24"
      "length (rainP sr1) = 24" "length (wind sr1) = 24"
    by auto
  from next24HoursSeries_first_24 [OF hy [of 10] ht hm hr hw, where h = sample_host] obtain sr2 where b: "next24HoursSeries sample_host (sample_data 10) = Inr sr2"
      "length (labels sr2) = 10" "length (temps sr2) = 10"
      "length (rainP sr2) = 10" "length (wind sr2) = 10"
    by auto
  from next24HoursSeries_first_24 [OF hy [of 30] ht hm hr hw, where h = sample_host] obtain sr3 where c: "next24HoursSeries sample_host (sample_data 30) = Inr sr3"
      "length (labels sr3) = 24" "length (temps sr3) = 24"
      "length (rainP sr3) = 24" "length (wind sr3) = 24"
      "temps sr3 = map (\<lambda>k. Num (of_nat k)) [0 ..< 24]"
    by (auto simp: take_map)
  from a b c show ?thesis by simp
qed

lemma Math_round_near:
  "\<bar>of_int \<lfloor>x + 1 / 2\<rfloor> - (x::rat)\<bar> \<le> 1 / 2"
proof -
  have "of_int \<lfloor>x + 1 / 2\<rfloor> \<le> x + 1 / 2" by (rule of_int_floor_le)
  moreover have "x + 1 / 2 < of_int \<lfloor>x + 1 / 2\<rfloor> + 1" using floor_correct [of "x + 1 / 2"] by simp
  ultimately show ?thesis by linarith
qed

lemma Math_round_21_6: "Math_round (Num (216 / 10)) = Fin 22"
proof -
  have f: "\<lfloor>(216 / 10 :: rat) + 1 / 2\<rfloor> = 22"
    by (rule floor_unique) simp_all
  show ?thesis
    unfolding Math_round.simps ToNumber.simps number.case f by simp
qed

lemma NumberToString_22: "NumberToString h (Fin 22) = js ''22''"
proof -
  have "\<lfloor>22::rat\<rfloor> = 22" by simp
  then show ?thesis
    by (simp add: NumberToString_def int_digits_def nat_digits.simps js_def)
qed

lemma setTodayCard_fields:
  assumes "current data = Some c"
    and "p_lat (currentPlace s) = Num la"
    and "p_lon (currentPlace s) = Num lo"
  shows "fst (setTodayCard h data s) = None"
    and "tempNow (snd (setTodayCard h data s)) = NumberToString h (Math_round (c_temperature_2m c))"
    and "humNow (snd (setTodayCard h data s)) = orDash h (c_relative_humidity_2m c)"
    and "rainNow (snd (setTodayCard h data s))
           = rainText h (getClosestHourly data h_precipitation_probability)"
    and "tempUnit (snd (setTodayCard h data s)) = unitSuffix (unit s)"
    and "feelUnit (snd (setTodayCard h data s)) = unitSuffix (unit s)"
  using assms by (simp_all add: setTodayCard_def Let_def del: Math_round.simps)

lemma orDash_nullish: "nullish v \<Longrightarrow> orDash h v = DASH"
  by (cases v) (simp_all add: orDash_def)

text \<open>
  Claim C7.  With current conditions present and a place with coordinates selected,
  \<^verbatim>\<open>setTodayCard\<close> does not throw; the temperature shown is the text of the nearest
  integer (at most one half away, \<open>21.6\<close> shown as \<^verbatim>\<open>22\<close>); a missing or \<^verbatim>\<open>null\<close>
  relative humidity is shown as the placeholder glyph, which is not the text \<^verbatim>\<open>0\<close>, and
  a humidity that is present is shown as that number.
\<close>

theorem setTodayCard_rounds_and_placeholder:
  assumes "current data = Some c"
    and "p_lat (currentPlace s) = Num la"
    and "p_lon (currentPlace s) = Num lo"
  shows "fst (setTodayCard h data s) = None
       \<and> (\<forall>x. c_temperature_2m c = Num x \<longrightarrow>
             tempNow (snd (setTodayCard h data s)) = NumberToString h (Fin (of_int \<lfloor>x + 1 / 2\<rfloor>))
             \<and> \<bar>of_int \<lfloor>x + 1 / 2\<rfloor> - x\<bar> \<le> 1 / 2)
       \<and> (c_temperature_2m c = Num (216 / 10) \<longrightarrow>
             tempNow (snd (setTodayCard h data s)) = js ''22'')
       \<and> (nullish (c_relative_humidity_2m c) \<longrightarrow>
             humNow (snd (setTodayCard h data s)) = DASH)
       \<and> (\<forall>r. c_relative_humidity_2m c = Num r \<longrightarrow>
             humNow (snd (setTodayCard h data s)) = NumberToString h (Fin r))
       \<and> DASH \<noteq> js ''0''"
proof -
  note f = setTodayCard_fields [OF assms, of h]
  have a: "fst (setTodayCard h data s) = None" by (rule f(1))
  have b: "tempNow (snd (setTodayCard h data s)) = NumberToString h (Fin (of_int \<lfloor>x + 1 / 2\<rfloor>))
             \<and> \<bar>of_int \<lfloor>x + 1 / 2\<rfloor> - x\<bar> \<le> 1 / 2"
    if "c_temperature_2m c = Num x" for x
    using that Math_round_near [of x] by (simp add: f(2))
  have c: "tempNow (snd (setTodayCard h data s)) = js ''22''"
    if "c_temperature_2m c = Num (216 / 10)"
    unfolding f(2) that Math_round_21_6 by (rule NumberToString_22)
  have d: "humNow (snd (setTodayCard h data s)) = DASH"
    if "nullish (c_relative_humidity_2m c)"
    using that by (simp add: f(3) orDash_nullish)
  have e: "humNow (snd (setTodayCard h data s)) = NumberToString h (Fin r)"
    if "c_relative_humidity_2m c = Num r" for r
    using that by (simp add: f(3) orDash_def)
  have g: "DASH \<noteq> js ''0''" by (simp add: DASH_def js_def)
  from a b c d e g show ?thesis by blast
qed

text \<open>
  The theorem on the sample payload (temperature \<open>21.6\<close>, no humidity field).
\<close>

theorem setTodayCard_rounds_and_placeholder_witness:
  "fst (setTodayCard sample_host (sample_data 24) sample_page) = None
   \<and> tempNow (snd (setTodayCard sample_host (sample_data 24) sample_page)) = js ''22''
   \<and> humNow (snd (setTodayCard sample_host (sample_data 24) sample_page)) = DASH"
  using setTodayCard_rounds_and_placeholder
    [of "sample_data 24" sample_current sample_page "277 / 10" "853 / 10" sample_host]
  by (simp add: sample_data_def sample_current_def sample_page_def setPlace_def)

section \<open>The rain chance of the current hour\<close>

lemma rainText_absent: "nullish v \<Longrightarrow> rainText h v = DASH"
  by (simp add: rainText_def)

text \<open>
  Claim C8.  The rain chance shown on the today card is computed from
  \<^verbatim>\<open>getClosestHourly\<close> on the precipitation probabilities: the entry at the first index
  whose hourly timestamp equals \<^verbatim>\<open>current.time\<close>; the entry at index \<open>0\<close> when no
  timestamp equals it; \<^verbatim>\<open>null\<close> when the hourly object, its timestamps or its
  probabilities cannot be read.  An absent value is shown as the placeholder glyph, a
  number as its nearest integer.
\<close>

theorem getClosestHourly_exact_or_first:
  "(\<forall>c hr ts ps tnow k.
       current data = Some c \<and> hourly data = Some hr \<and> h_time hr = Some ts
       \<and> h_precipitation_probability hr = Some ps \<and> c_time c = Some tnow
       \<and> k < length ts \<and> ts ! k = tnow \<and> (\<forall>j<k. ts ! j \<noteq> tnow)
       \<longrightarrow> getClosestHourly data h_precipitation_probability = at_index ps k)
   \<and> (\<forall>c hr ts ps.
       current data = Some c \<and> hourly data = Some hr \<and> h_time hr = Some ts
       \<and> h_precipitation_probability hr = Some ps
       \<and> (\<forall>tnow. c_time c = Some tnow \<longrightarrow> tnow \<notin> set ts)
       \<longrightarrow> getClosestHourly data h_precipitation_probability = at_index ps 0)
   \<and> ((current data = None \<or> hourly data = None
        \<or> (\<exists>hr. hourly data = Some hr
              \<and> (h_time hr = None \<or> h_precipitation_probability hr = None)))
       \<longrightarrow> getClosestHourly data h_precipitation_probability = Null)
   \<and> (\<forall>c. current data = Some c \<longrightarrow>
         rainNow (snd (setTodayCard h data s))
           = rainText h (getClosestHourly data h_precipitation_probability))
   \<and> rainText h Null = DASH \<and> rainText h Undefined = DASH
   \<and> (\<forall>x. rainText h (Num x) = NumberToString h (Fin (of_int \<lfloor>x + 1 / 2\<rfloor>)))"
proof -
  have a: "getClosestHourly data h_precipitation_probability = at_index ps k"
    if "current data = Some c" "hourly data = Some hr" "h_time hr = Some ts"
      "h_precipitation_probability hr = Some ps" "c_time c = Some tnow"
      "k < length ts" "ts ! k = tnow" "\<forall>j<k. ts ! j \<noteq> tnow"
    for c hr ts ps tnow k
  proof -
    have "index_of ts tnow = Some k"
      using that(6-8) by (simp add: index_of_Some)
    then show ?thesis
      using that(1-5) by (simp add: getClosestHourly_def indexOf_def)
  qed
  have b: "getClosestHourly data h_precipitation_probability = at_index ps 0"
    if "current data = Some c" "hourly data = Some hr" "h_time hr = Some ts"
      "h_precipitation_probability hr = Some ps"
      "\<forall>tnow. c_time c = Some tnow \<longrightarrow> tnow \<notin> set ts"
    for c hr ts ps
  proof -
    have "indexOf ts (c_time c) = None"
      using that(5) by (cases "c_time c") (simp_all add: indexOf_def index_of_None)
    then show ?thesis
      using that(1-4) by (simp add: getClosestHourly_def)
  qed
  have c: "getClosestHourly data h_precipitation_probability = Null"
    if "current data = None \<or> hourly data = None
        \<or> (\<exists>hr. hourly data = Some hr
              \<and> (h_time hr = None \<or> h_precipitation_probability hr = None))"
    using that by (auto simp: getClosestHourly_def split: option.splits)
  have d: "rainNow (snd (setTodayCard h data s))
           = rainText h (getClosestHourly data h_precipitation_probability)"
    if "current data = Some c" for c
    using that
    by (simp add: setTodayCard_def Let_def split: jsval.splits del: Math_round.simps)
  have e: "rainText h Null = DASH \<and> rainText h Undefined = DASH"
    by (simp add: rainText_absent)
  have f: "rainText h (Num x) = NumberToString h (Fin (of_int \<lfloor>x + 1 / 2\<rfloor>))" for x
    by (simp add: rainText_def)
  from a b c d e f show ?thesis by blast
qed

text \<open>
  The theorem on the sample payload: the current time is hourly slot 3 (probability 6);
  with a current time that matches no slot the first entry is taken; without hourly data
  the value is absent.
\<close>

theorem getClosestHourly_exact_or_first_witness:
  "getClosestHourly (sample_data 24) h_precipitation_probability = Num 6
   \<and> getClosestHourly ((sample_data 24)\<lparr>current := Some (sample_current\<lparr>c_time := Some (js ''never'')\<rparr>)\<rparr>)
        h_precipitation_probability = Num 0
   \<and> getClosestHourly ((sample_data 24)\<lparr>hourly := None\<rparr>) h_precipitation_probability = Null
   \<and> rainText sample_host Null = DASH"
proof -
  have d1: "sample_hour k = sample_hour 3 \<longleftrightarrow> k = 3" if "k < 10" for k
    using that by (auto simp: sample_hour_def nat_digits.simps)
  have ne: "js ''never'' \<notin> set (map sample_hour [0 ..< 24])"
    by (auto simp: sample_hour_def js_def)
  have a: "getClosestHourly (sample_data 24) h_precipitation_probability = Num 6"
    using getClosestHourly_exact_or_first [of "sample_data 24" sample_host sample_page]
      d1
    by (simp add: sample_data_def sample_hourly_def sample_current_def at_index_def)
  have b: "getClosestHourly ((sample_data 24)\<lparr>current := Some (sample_current\<lparr>c_time := Some (js ''never'')\<rparr>)\<rparr>)
        h_precipitation_probability = Num 0"
    using getClosestHourly_exact_or_first
      [of "(sample_data 24)\<lparr>current := Some (sample_current\<lparr>c_time := Some (js ''never'')\<rparr>)\<rparr>"
        sample_host sample_page] ne
    by (simp add: sample_data_def sample_hourly_def sample_current_def at_index_def)
  have c: "getClosestHourly ((sample_data 24)\<lparr>hourly := None\<rparr>) h_precipitation_probability = Null
      \<and> rainText sample_host Null = DASH"
    using getClosestHourly_exact_or_first [of "(sample_data 24)\<lparr>hourly := None\<rparr>" sample_host sample_page]
    by simp
  from a b c show ?thesis by simp
qed

section \<open>The search flow and the place\<close>

lemma geocode_result_simps:
  "geocode_result (OkJson g) = Inr g"
  "geocode_result NotOk = Inl (Exn (js ''Geocoding request failed.''))"
  "geocode_result (Rejects e) = Inl e"
  "geocode_result (OkInvalid e) = Inl e"
  by (simp_all add: geocode_result_def awaited_def)

lemma forecast_result_simps:
  "forecast_result (OkJson d) = Inr d"
  "forecast_result NotOk = Inl (Exn (js ''Forecast request failed.''))"
  "forecast_result (Rejects e) = Inl e"
  "forecast_result (OkInvalid e) = Inl e"
  by (simp_all add: forecast_result_def awaited_def)

text \<open>
  Claim C3.  A search whose geocoding reply parses but holds no result (the body is
  \<^verbatim>\<open>null\<close>, or \<^verbatim>\<open>results\<close> is missing or empty) changes nothing but the error box, which
  shows \<^verbatim>\<open>No results\<close>, the status and loading indicators, and the request log: the
  current place, its pill and the charts stay as they were, and no forecast is requested.
  A reply that fails (rejected fetch, response not ok, unparsable body) shows
  \<^verbatim>\<open>City search failed\<close> with the failure's message instead; the two titles differ.
\<close>

theorem no_results_is_not_failure:
  "(\<forall>g. (g = None \<or> (\<exists>b. g = Some b \<and> (results b = None \<or> results b = Some [])))
      \<longrightarrow> loadWeatherByCityName h name (OkJson g) frep s
          = s\<lparr>errorBox_hidden := False,
              errorTitle := js ''No results'',
              errorSub := js ''Try a different city name (example: Pune, Kathmandu, Patna).'',
              statusPill := js ''Ready'',
              loading_hidden := True,
              requests := requests s @ [Geocoding name]\<rparr>)
   \<and> (\<forall>grep e. geocode_result grep = Inl e
      \<longrightarrow> loadWeatherByCityName h name grep frep s
          = s\<lparr>errorBox_hidden := False,
              errorTitle := js ''City search failed'',
              errorSub := message_or e (js ''Try again.''),
              statusPill := js ''Ready'',
              loading_hidden := True,
              requests := requests s @ [Geocoding name]\<rparr>)
   \<and> geocode_result NotOk = Inl (Exn (js ''Geocoding request failed.''))
   \<and> (\<forall>e. geocode_result (Rejects e) = Inl e)
   \<and> js ''No results'' \<noteq> js ''City search failed''"
proof -
  have a: "loadWeatherByCityName h name (OkJson g) frep s
          = s\<lparr>errorBox_hidden := False,
              errorTitle := js ''No results'',
              errorSub := js ''Try a different city name (example: Pune, Kathmandu, Patna).'',
              statusPill := js ''Ready'',
              loading_hidden := True,
              requests := requests s @ [Geocoding name]\<rparr>"
    if "g = None \<or> (\<exists>b. g = Some b \<and> (results b = None \<or> results b = Some []))" for g
    using that
    by (auto simp: loadWeatherByCityName_def loadWeatherByCityName_resume_def
        loadWeatherByCityName_start_def geocode_result_simps geocode_def setLoading_def
        showError_def clearError_def)
  have b: "loadWeatherByCityName h name grep frep s
          = s\<lparr>errorBox_hidden := False,
              errorTitle := js ''City search failed'',
              errorSub := message_or e (js ''Try again.''),
              statusPill := js ''Ready'',
              loading_hidden := True,
              requests := requests s @ [Geocoding name]\<rparr>"
    if "geocode_result grep = Inl e" for grep e
    using that
    by (simp add: loadWeatherByCityName_def loadWeatherByCityName_resume_def
        loadWeatherByCityName_start_def geocode_def setLoading_def
        showError_def clearError_def)
  have c: "js ''No results'' \<noteq> js ''City search failed''"
    by (simp add: js_def)
  from a b c show ?thesis
    by (simp add: geocode_result_simps)
qed

text \<open>
  The theorem for the query \<^verbatim>\<open>zzqxnotaplace\<close> answered without results, and for a
  response that is not ok.
\<close>

theorem no_results_is_not_failure_witness:
  "currentPlace (loadWeatherByCityName sample_host (js ''zzqxnotaplace'')
       (OkJson (Some \<lparr>results = None\<rparr>)) NotOk sample_page) = currentPlace sample_page
   \<and> tempChart (loadWeatherByCityName sample_host (js ''zzqxnotaplace'')
       (OkJson (Some \<lparr>results = None\<rparr>)) NotOk sample_page) = tempChart sample_page
   \<and> errorTitle (loadWeatherByCityName sample_host (js ''zzqxnotaplace'')
       (OkJson (Some \<lparr>results = None\<rparr>)) NotOk sample_page) = js ''No results''
   \<and> errorTitle (loadWeatherByCityName sample_host (js ''Pune'') NotOk NotOk sample_page)
       = js ''City search failed''
   \<and> errorSub (loadWeatherByCityName sample_host (js ''Pune'') NotOk NotOk sample_page)
       = js ''Geocoding request failed.''"
  using no_results_is_not_failure [of sample_host "js ''zzqxnotaplace''" NotOk sample_page]
    no_results_is_not_failure [of sample_host "js ''Pune''" NotOk sample_page]
  by (simp add: message_or_def js_def)

text \<open>
  Claim C10.  \<^verbatim>\<open>loadWeatherByCoords\<close> issues its forecast request from a state in which
  the current place and its pill already are the requested ones; when the forecast
  fails, the place and the pill still are the requested ones and the error box shows
  \<^verbatim>\<open>Could not load weather\<close>: nothing restores the previous place.
\<close>

theorem place_overwritten_before_fetch:
  "(\<exists>s0. loadWeatherByCoords_start lat lon label tz s = forecast lat lon tz s0
         \<and> currentPlace s0 = \<lparr>p_name = label, p_lat = lat, p_lon = lon, p_tz = tz\<rparr>
         \<and> placePill s0 = label
         \<and> requests s0 = requests s)
   \<and> requests (loadWeatherByCoords_start lat lon label tz s)
       = requests s @ [Forecast lat lon tz
            (if unit s = js ''F'' then js ''fahrenheit'' else js ''celsius'') (js ''kmh'')]
   \<and> (\<forall>rep e. forecast_result rep = Inl e \<longrightarrow>
         currentPlace (loadWeatherByCoords h lat lon label tz rep s)
           = \<lparr>p_name = label, p_lat = lat, p_lon = lon, p_tz = tz\<rparr>
         \<and> placePill (loadWeatherByCoords h lat lon label tz rep s) = label
         \<and> \<not> errorBox_hidden (loadWeatherByCoords h lat lon label tz rep s)
         \<and> errorTitle (loadWeatherByCoords h lat lon label tz rep s) = js ''Could not load weather''
         \<and> errorSub (loadWeatherByCoords h lat lon label tz rep s)
             = message_or e (js ''Check your internet and try again.''))"
proof -
  let ?s0 = "setPlace label lat lon tz (setLoading True (clearError s))"
  have a: "loadWeatherByCoords_start lat lon label tz s = forecast lat lon tz ?s0
         \<and> currentPlace ?s0 = \<lparr>p_name = label, p_lat = lat, p_lon = lon, p_tz = tz\<rparr>
         \<and> placePill ?s0 = label
         \<and> requests ?s0 = requests s"
    by (simp add: loadWeatherByCoords_start_def setPlace_def setLoading_def clearError_def)
  have b: "requests (loadWeatherByCoords_start lat lon label tz s)
       = requests s @ [Forecast lat lon tz
            (if unit s = js ''F'' then js ''fahrenheit'' else js ''celsius'') (js ''kmh'')]"
    by (simp add: loadWeatherByCoords_start_def setPlace_def setLoading_def clearError_def
        forecast_def Let_def)
  have c: "currentPlace (loadWeatherByCoords h lat lon label tz rep s)
           = \<lparr>p_name = label, p_lat = lat, p_lon = lon, p_tz = tz\<rparr>
         \<and> placePill (loadWeatherByCoords h lat lon label tz rep s) = label
         \<and> \<not> errorBox_hidden (loadWeatherByCoords h lat lon label tz rep s)
         \<and> errorTitle (loadWeatherByCoords h lat lon label tz rep s) = js ''Could not load weather''
         \<and> errorSub (loadWeatherByCoords h lat lon label tz rep s)
             = message_or e (js ''Check your internet and try again.'')"
    if "forecast_result rep = Inl e" for rep e
    using that
    by (simp add: loadWeatherByCoords_def loadWeatherByCoords_resume_def
        loadWeatherByCoords_start_def setPlace_def setLoading_def clearError_def
        forecast_def Let_def showError_def)
  from a b c show ?thesis by blast
qed

text \<open>
  The theorem for a load of \<^verbatim>\<open>My location\<close> whose forecast response is not ok, from a
  page that showed another place.
\<close>

theorem place_overwritten_before_fetch_witness:
  "currentPlace (loadWeatherByCoords sample_host (Num 1) (Num 2) (js ''My location'') (js ''auto'')
       NotOk sample_page)
     = \<lparr>p_name = js ''My location'', p_lat = Num 1, p_lon = Num 2, p_tz = js ''auto''\<rparr>
   \<and> currentPlace sample_page
     \<noteq> \<lparr>p_name = js ''My location'', p_lat = Num 1, p_lon = Num 2, p_tz = js ''auto''\<rparr>
   \<and> placePill (loadWeatherByCoords sample_host (Num 1) (Num 2) (js ''My location'') (js ''auto'')
       NotOk sample_page) = js ''My location''
   \<and> errorSub (loadWeatherByCoords sample_host (Num 1) (Num 2) (js ''My location'') (js ''auto'')
       NotOk sample_page) = js ''Forecast request failed.''"
  using place_overwritten_before_fetch
    [of "Num 1" "Num 2" "js ''My location''" "js ''auto''" sample_page sample_host]
  by (simp add: forecast_result_simps message_or_def js_def sample_page_def setPlace_def)

section \<open>Autocomplete: blank input and the debounce timer\<close>

text \<open>
  The invariant holds when the script starts, and input events and the passing of time
  keep it.
\<close>

lemma timers_ok_initial: "timers_ok initial"
  by (simp add: timers_ok_def initial_def)

lemma cleared_when_ok:
  assumes "timers_ok s"
  shows "(case debounceTimer s of
            None \<Rightarrow> timers s
          | Some ident \<Rightarrow> if ident \<noteq> 0 then filter (\<lambda>(j, due). j \<noteq> ident) (timers s)
                          else timers s) = []"
proof (cases "debounceTimer s")
  case None
  with assms show ?thesis
    by (cases "timers s") (simp_all add: timers_ok_def)
next
  case (Some ident)
  have all: "list_all (\<lambda>tm. fst tm = ident \<and> 0 < fst tm) (timers s)"
    using assms Some by (simp add: timers_ok_def list_all_iff)
  show ?thesis
  proof (cases "ident = 0")
    case True
    with all have "timers s = []" by (cases "timers s") auto
    with Some True show ?thesis by simp
  next
    case False
    from all have "filter (\<lambda>(j, due). j \<noteq> ident) (timers s) = []"
      by (auto simp: filter_empty_conv list_all_iff)
    with Some False show ?thesis by simp
  qed
qed

lemma cityInput_input_effect:
  assumes "timers_ok s"
  shows "cityInput_input v s =
           s\<lparr>cityInput_value := v, errorBox_hidden := True,
             timers := [(nextTimerId s, now s + 280)],
             nextTimerId := Suc (nextTimerId s),
             debounceTimer := Some (nextTimerId s)\<rparr>"
proof -
  let ?s1 = "clearError (s\<lparr>cityInput_value := v\<rparr>)"
  let ?s2 = "case debounceTimer ?s1 of
               None \<Rightarrow> ?s1
             | Some ident \<Rightarrow> if ident \<noteq> 0 then clearTimeout ident ?s1 else ?s1"
  have eq: "?s2 = ?s1\<lparr>timers := []\<rparr>"
    using cleared_when_ok [OF assms]
    by (cases "debounceTimer s"; cases "the (debounceTimer s) = 0")
       (simp_all add: clearError_def clearTimeout_def)
  show ?thesis
    unfolding cityInput_input_def Let_def eq
    by (simp add: setTimeout_def clearError_def)
qed

lemma timers_ok_cityInput_input:
  "timers_ok s \<Longrightarrow> timers_ok (cityInput_input v s)"
  by (simp add: cityInput_input_effect) (simp add: timers_ok_def)

lemma handleAutocomplete_start_effect:
  "handleAutocomplete_start s =
     (if length (trim (cityInput_value s)) < 2 then s\<lparr>suggestions_show := False\<rparr>
      else s\<lparr>requests := requests s @ [Geocoding (trim (cityInput_value s))]\<rparr>)"
  by (simp add: handleAutocomplete_start_def hideSuggestions_def geocode_def Let_def)

lemma advance_not_due:
  assumes "list_all (\<lambda>tm. time < snd tm) (timers s)"
  shows "advance time s = s\<lparr>now := max (now s) time\<rparr>"
proof -
  have "filter (\<lambda>(j, due). due \<le> time) (timers s) = []"
    using assms by (auto simp: filter_empty_conv list_all_iff)
  then show ?thesis by (simp add: advance_def)
qed

lemma advance_one_due:
  assumes "timers s = [(ident, due)]" and "due \<le> time"
  shows "advance time s =
           (handleAutocomplete_start (s\<lparr>timers := [], now := max (now s) due\<rparr>))
             \<lparr>now := max (max (now s) due) time\<rparr>"
  using assms
  by (simp add: advance_def fire_def clearTimeout_def handleAutocomplete_start_effect)

lemma fire_timers_ok: "timers_ok s \<Longrightarrow> timers_ok (fire tm s)"
proof (cases "tm \<in> set (timers s)")
  case False
  assume "timers_ok s"
  with False show ?thesis by (simp add: fire_def)
next
  case True
  assume ok: "timers_ok s"
  have "j = fst tm" if "(j, due) \<in> set (timers s)" for j due
  proof -
    from ok that have "debounceTimer s = Some j"
      by (auto simp: timers_ok_def list_all_iff)
    moreover from ok True have "debounceTimer s = Some (fst tm)"
      by (auto simp: timers_ok_def list_all_iff)
    ultimately show ?thesis by simp
  qed
  then have "filter (\<lambda>(j, due). j \<noteq> fst tm) (timers s) = []"
    by (auto simp: filter_empty_conv)
  with ok True show ?thesis
    by (simp add: fire_def timers_ok_def clearTimeout_def handleAutocomplete_start_effect)
qed

lemma fold_fire_timers_ok: "timers_ok s \<Longrightarrow> timers_ok (fold fire tms s)"
  by (induction tms arbitrary: s) (simp_all add: fire_timers_ok)

lemma timers_ok_advance: "timers_ok s \<Longrightarrow> timers_ok (advance time s)"
proof -
  assume "timers_ok s"
  then have "timers_ok (fold fire (filter (\<lambda>(j, due). due \<le> time) (timers s)) s)"
    by (rule fold_fire_timers_ok)
  then show ?thesis by (simp add: advance_def Let_def timers_ok_def)
qed

lemma fire_now: "now s \<le> now (fire tm s)"
  by (simp add: fire_def clearTimeout_def handleAutocomplete_start_effect)

lemma fold_fire_now: "now s \<le> now (fold fire tms s)"
proof (induction tms arbitrary: s)
  case Nil
  show ?case by simp
next
  case (Cons tm tms)
  have "now s \<le> now (fire tm s)" by (rule fire_now)
  also have "\<dots> \<le> now (fold fire tms (fire tm s))" by (rule Cons.IH)
  finally show ?case by simp
qed

lemma now_advance: "time \<le> now (advance time s)"
  by (simp add: advance_def Let_def)

text \<open>The state a keystroke leaves, and what the clock then does to it.\<close>

lemma after_keystroke:
  assumes "timers_ok s"
  shows "\<exists>ident. timers (keystroke time v s) = [(ident, now (advance time s) + 280)]
           \<and> cityInput_value (keystroke time v s) = v
           \<and> requests (keystroke time v s) = requests (advance time s)
           \<and> now (keystroke time v s) = now (advance time s)
           \<and> timers_ok (keystroke time v s)"
proof -
  have ok: "timers_ok (advance time s)" using assms by (rule timers_ok_advance)
  show ?thesis
    unfolding keystroke_def cityInput_input_effect [OF ok]
    using ok by (simp add: timers_ok_def)
qed

lemma pending_then_advance:
  assumes "timers s = [(ident, due)]"
  shows "requests (advance time s) =
           requests s @ (if due \<le> time \<and> 2 \<le> length (trim (cityInput_value s))
                         then [Geocoding (trim (cityInput_value s))] else [])"
    and "due \<le> time \<Longrightarrow> timers (advance time s) = []"
    and "due \<le> time \<Longrightarrow> length (trim (cityInput_value s)) < 2
           \<Longrightarrow> \<not> suggestions_show (advance time s)"
proof -
  show "requests (advance time s) =
           requests s @ (if due \<le> time \<and> 2 \<le> length (trim (cityInput_value s))
                         then [Geocoding (trim (cityInput_value s))] else [])"
  proof (cases "due \<le> time")
    case True
    show ?thesis
      unfolding advance_one_due [OF assms True]
      using True by (simp add: handleAutocomplete_start_effect)
  next
    case False
    then have "list_all (\<lambda>tm. time < snd tm) (timers s)" using assms by simp
    from advance_not_due [OF this] False show ?thesis by simp
  qed
  show "timers (advance time s) = []" if "due \<le> time"
    unfolding advance_one_due [OF assms that]
    by (simp add: handleAutocomplete_start_effect)
  show "\<not> suggestions_show (advance time s)"
    if "due \<le> time" "length (trim (cityInput_value s)) < 2"
    unfolding advance_one_due [OF assms that(1)]
    using that(2) by (simp add: handleAutocomplete_start_effect)
qed

lemma fold_fire_now_le:
  assumes "now s \<le> time" and "list_all (\<lambda>tm. snd tm \<le> time) tms"
  shows "now (fold fire tms s) \<le> time"
  using assms
proof (induction tms arbitrary: s)
  case Nil
  then show ?case by simp
next
  case (Cons tm tms)
  have "now (fire tm s) \<le> time"
    using Cons.prems by (simp add: fire_def clearTimeout_def handleAutocomplete_start_effect)
  moreover have "list_all (\<lambda>tm. snd tm \<le> time) tms" using Cons.prems by simp
  ultimately show ?case using Cons.IH by simp
qed

lemma now_advance_eq:
  assumes "now s \<le> time"
  shows "now (advance time s) = time"
proof -
  have "list_all (\<lambda>tm. snd tm \<le> time) (filter (\<lambda>(j, due). due \<le> time) (timers s))"
    by (auto simp: list_all_iff)
  from fold_fire_now_le [OF assms this] show ?thesis
    by (simp add: advance_def Let_def max_def)
qed

lemma trim_blank:
  assumes "list_all is_ws v"
  shows "trim v = []"
proof -
  have eq: "dropWhile is_ws v = []"
    using assms by (simp add: list_all_iff)
  show ?thesis unfolding trim_def eq by simp
qed

text \<open>
  Claim C5.  When the field trims to the empty string, the search button's handler
  requests nothing (it shows \<^verbatim>\<open>Type a city name\<close>).  When the field trims to fewer than
  two code units, \<^verbatim>\<open>handleAutocomplete\<close> requests nothing and hides the suggestions; so a
  keystroke leaving such a text requests nothing however long one waits, and once its
  timer has fired no timer is pending and the suggestions are hidden.  A text of white
  space only trims to the empty string.
\<close>

theorem blank_input_no_request:
  "(trim (cityInput_value s) = [] \<longrightarrow>
      requests (searchBtn_click s) = requests s
      \<and> errorTitle (searchBtn_click s) = js ''Type a city name'')
   \<and> (length (trim (cityInput_value s)) < 2 \<longrightarrow>
      requests (handleAutocomplete_start s) = requests s
      \<and> \<not> suggestions_show (handleAutocomplete_start s))
   \<and> (timers_ok s \<and> now s \<le> time \<and> length (trim v) < 2 \<longrightarrow>
      requests (advance later (keystroke time v s)) = requests (advance time s)
      \<and> (time + 280 \<le> later \<longrightarrow>
            timers (advance later (keystroke time v s)) = []
            \<and> \<not> suggestions_show (advance later (keystroke time v s))))
   \<and> (list_all is_ws v \<longrightarrow> trim v = [] \<and> length (trim v) < 2)"
proof -
  have a: "requests (searchBtn_click s) = requests s
      \<and> errorTitle (searchBtn_click s) = js ''Type a city name''"
    if "trim (cityInput_value s) = []"
    using that by (simp add: searchBtn_click_def showError_def)
  have b: "requests (handleAutocomplete_start s) = requests s
      \<and> \<not> suggestions_show (handleAutocomplete_start s)"
    if "length (trim (cityInput_value s)) < 2"
    using that by (simp add: handleAutocomplete_start_effect)
  have c: "requests (advance later (keystroke time v s)) = requests (advance time s)
      \<and> (time + 280 \<le> later \<longrightarrow>
            timers (advance later (keystroke time v s)) = []
            \<and> \<not> suggestions_show (advance later (keystroke time v s)))"
    if "timers_ok s" "now s \<le> time" "length (trim v) < 2"
  proof -
    from after_keystroke [OF that(1), of time v] obtain ident where
      k: "timers (keystroke time v s) = [(ident, now (advance time s) + 280)]"
         "cityInput_value (keystroke time v s) = v"
         "requests (keystroke time v s) = requests (advance time s)"
      by blast
    have n: "now (advance time s) = time" using that(2) by (rule now_advance_eq)
    show ?thesis
      using pending_then_advance [OF k(1), of later] that(3)
      by (simp add: k(2,3) n)
  qed
  have d: "trim v = [] \<and> length (trim v) < 2" if "list_all is_ws v"
    using trim_blank [OF that] by simp
  from a b c d show ?thesis by blast
qed

text \<open>
  The theorem for the texts of three spaces, the empty text and \<^verbatim>\<open> P \<close> on the initial
  page.
\<close>

theorem blank_input_no_request_witness:
  "requests (searchBtn_click (initial\<lparr>cityInput_value := js ''   ''\<rparr>)) = []
   \<and> requests (searchBtn_click initial) = []
   \<and> requests (handleAutocomplete_start (initial\<lparr>cityInput_value := js '' P ''\<rparr>)) = []
   \<and> requests (advance 1000 (keystroke 10 (js '' P '') initial)) = requests (advance 10 initial)
   \<and> timers (advance 1000 (keystroke 10 (js '' P '') initial)) = []
   \<and> trim (js ''   '') = []"
proof -
  have w: "list_all is_ws (js ''   '')" by (simp add: js_def is_ws_def)
  have t1: "trim (js ''   '') = []"
    using blank_input_no_request [of initial 0 "js ''   ''" 0] w by simp
  have t2: "trim (js '' P '') = js ''P''"
    by (simp add: trim_def js_def is_ws_def)
  have t3: "trim [] = []" by (simp add: trim_def)
  have a: "requests (searchBtn_click (initial\<lparr>cityInput_value := js ''   ''\<rparr>)) = []"
    using blank_input_no_request [of "initial\<lparr>cityInput_value := js ''   ''\<rparr>" 0 "[]" 0] t1
    by (simp add: initial_def)
  have b: "requests (searchBtn_click initial) = []"
    using blank_input_no_request [of initial 0 "[]" 0] t3
    by (simp add: initial_def)
  have c: "requests (handleAutocomplete_start (initial\<lparr>cityInput_value := js '' P ''\<rparr>)) = []"
    using blank_input_no_request [of "initial\<lparr>cityInput_value := js '' P ''\<rparr>" 0 "[]" 0] t2
    by (simp add: initial_def js_def)
  have d: "requests (advance 1000 (keystroke 10 (js '' P '') initial)) = requests (advance 10 initial)
      \<and> timers (advance 1000 (keystroke 10 (js '' P '') initial)) = []"
    using blank_input_no_request [of initial 10 "js '' P ''" 1000] t2 timers_ok_initial
    by (simp add: initial_def js_def)
  from a b c d t1 show ?thesis by simp
qed

text \<open>
  Claim C6.  Two keystrokes less than 280 ms apart cause at most one geocoding request
  between them and any later time: none before the second keystroke's timer is due, and
  from then on exactly one, for the trimmed text of the second keystroke, if that text
  has at least two code units; the first keystroke's timer is cleared before it is due.
\<close>

theorem debounce_one_query:
  assumes "timers_ok s" and "now s \<le> t1" and "t1 \<le> t2" and "t2 < t1 + 280"
  shows "requests (advance later (keystroke t2 v2 (keystroke t1 v1 s)))
           = requests (advance t1 s)
             @ (if t2 + 280 \<le> later \<and> 2 \<le> length (trim v2) then [Geocoding (trim v2)] else [])"
proof -
  let ?k1 = "keystroke t1 v1 s"
  let ?k2 = "keystroke t2 v2 ?k1"
  from after_keystroke [OF assms(1), of t1 v1] obtain id1 where
    k1: "timers ?k1 = [(id1, now (advance t1 s) + 280)]"
        "requests ?k1 = requests (advance t1 s)"
        "now ?k1 = now (advance t1 s)"
        "timers_ok ?k1"
    by blast
  have n1: "now (advance t1 s) = t1" using assms(2) by (rule now_advance_eq)
  have "list_all (\<lambda>tm. t2 < snd tm) (timers ?k1)"
    using assms(4) by (simp add: k1(1) n1)
  then have a2: "advance t2 ?k1 = ?k1\<lparr>now := max (now ?k1) t2\<rparr>"
    by (rule advance_not_due)
  from after_keystroke [OF k1(4), of t2 v2] obtain id2 where
    k2: "timers ?k2 = [(id2, now (advance t2 ?k1) + 280)]"
        "cityInput_value ?k2 = v2"
        "requests ?k2 = requests (advance t2 ?k1)"
    by blast
  have n2: "now (advance t2 ?k1) = t2"
    using assms(3) by (simp add: a2 k1(3) n1)
  have r2: "requests ?k2 = requests (advance t1 s)"
    by (simp add: k2(3) a2 k1(2))
  show ?thesis
    using pending_then_advance(1) [OF k2(1), of later]
    by (simp add: k2(2) r2 n2)
qed

text \<open>
  The theorem for \<^verbatim>\<open>P\<close> at 100 ms and \<^verbatim>\<open>Pu\<close> at 150 ms on the initial page: one request,
  for \<^verbatim>\<open>Pu\<close>, once 430 ms is reached, and none before.
\<close>

theorem debounce_one_query_witness:
  "requests (advance 1000 (keystroke 150 (js ''Pu'') (keystroke 100 (js ''P'') initial)))
     = [Geocoding (js ''Pu'')]
   \<and> requests (advance 400 (keystroke 150 (js ''Pu'') (keystroke 100 (js ''P'') initial))) = []"
proof -
  have t: "trim (js ''Pu'') = js ''Pu''"
    by (simp add: trim_def js_def is_ws_def)
  have r: "requests (advance 100 initial) = []"
    by (simp add: advance_def initial_def)
  have n: "now initial \<le> 100" by (simp add: initial_def)
  show ?thesis
    using debounce_one_query [OF timers_ok_initial n, of 150 1000 "js ''Pu''" "js ''P''"]
      debounce_one_query [OF timers_ok_initial n, of 150 400 "js ''Pu''" "js ''P''"]
    by (simp add: t r) (simp add: js_def)
qed

section \<open>Rendering a forecast\<close>

text \<open>What the rendering steps leave alone.\<close>

lemma setTodayCard_frame:
  "unit (snd (setTodayCard h data s)) = unit s"
  "currentPlace (snd (setTodayCard h data s)) = currentPlace s"
  "requests (snd (setTodayCard h data s)) = requests s"
  "tempChart (snd (setTodayCard h data s)) = tempChart s"
  "rainChart (snd (setTodayCard h data s)) = rainChart s"
  "windChart (snd (setTodayCard h data s)) = windChart s"
  "window_Chart (snd (setTodayCard h data s)) = window_Chart s"
  by (simp_all add: setTodayCard_def Let_def split: option.splits jsval.splits
      del: Math_round.simps)

lemma cards_loop_frame:
  "unit (snd (cards_loop h d days ks s)) = unit s
   \<and> currentPlace (snd (cards_loop h d days ks s)) = currentPlace s
   \<and> requests (snd (cards_loop h d days ks s)) = requests s
   \<and> tempChart (snd (cards_loop h d days ks s)) = tempChart s
   \<and> rainChart (snd (cards_loop h d days ks s)) = rainChart s
   \<and> windChart (snd (cards_loop h d days ks s)) = windChart s
   \<and> window_Chart (snd (cards_loop h d days ks s)) = window_Chart s
   \<and> tempUnit (snd (cards_loop h d days ks s)) = tempUnit s
   \<and> feelUnit (snd (cards_loop h d days ks s)) = feelUnit s"
  by (induction ks arbitrary: s) (simp_all split: sum.splits)

lemma buildForecastCards_frame:
  "unit (snd (buildForecastCards h data s)) = unit s"
  "currentPlace (snd (buildForecastCards h data s)) = currentPlace s"
  "requests (snd (buildForecastCards h data s)) = requests s"
  "tempChart (snd (buildForecastCards h data s)) = tempChart s"
  "rainChart (snd (buildForecastCards h data s)) = rainChart s"
  "windChart (snd (buildForecastCards h data s)) = windChart s"
  "window_Chart (snd (buildForecastCards h data s)) = window_Chart s"
  "tempUnit (snd (buildForecastCards h data s)) = tempUnit s"
  "feelUnit (snd (buildForecastCards h data s)) = feelUnit s"
proof -
  have loop: "snd (case cards_loop h d days ks s0 of
                 (Some e, s1) \<Rightarrow> (Some e, s1)
               | (None, s1) \<Rightarrow> (None, s1\<lparr>forecastChip := x s1\<rparr>))
              = (case fst (cards_loop h d days ks s0) of
                   Some e \<Rightarrow> snd (cards_loop h d days ks s0)
                 | None \<Rightarrow> (snd (cards_loop h d days ks s0))
                            \<lparr>forecastChip := x (snd (cards_loop h d days ks s0))\<rparr>)"
    for d days ks s0 and x :: "ui \<Rightarrow> jsstring"
    by (cases "cards_loop h d days ks s0") (simp split: option.splits)
  show "unit (snd (buildForecastCards h data s)) = unit s"
    "currentPlace (snd (buildForecastCards h data s)) = currentPlace s"
    "requests (snd (buildForecastCards h data s)) = requests s"
    "tempChart (snd (buildForecastCards h data s)) = tempChart s"
    "rainChart (snd (buildForecastCards h data s)) = rainChart s"
    "windChart (snd (buildForecastCards h data s)) = windChart s"
    "window_Chart (snd (buildForecastCards h data s)) = window_Chart s"
    "tempUnit (snd (buildForecastCards h data s)) = tempUnit s"
    "feelUnit (snd (buildForecastCards h data s)) = feelUnit s"
    by (simp_all add: buildForecastCards_def Let_def loop cards_loop_frame split: option.splits)
qed


text \<open>A rendering that does not throw went through every step.\<close>

lemma render_reaches:
  assumes "fst (render h data s) = None"
  obtains c s2 s3 sr where
    "current data = Some c"
    "setTodayCard h data (setTimePill h (c_time c) s) = (None, s2)"
    "buildForecastCards h data s2 = (None, s3)"
    "next24HoursSeries h data = Inr sr"
    "render h data s = (None, (makeCharts sr s3)\<lparr>statusPill := js ''Updated''\<rparr>)"
proof (cases "current data")
  case None
  with assms show ?thesis by (simp add: render_def)
next
  case (Some c)
  obtain e2 s2 where a: "setTodayCard h data (setTimePill h (c_time c) s) = (e2, s2)"
    by (cases "setTodayCard h data (setTimePill h (c_time c) s)")
  obtain e3 s3 where b: "buildForecastCards h data s2 = (e3, s3)"
    by (cases "buildForecastCards h data s2")
  from assms Some a have e2: "e2 = None"
    by (cases e2) (simp_all add: render_def)
  from assms Some a b e2 have e3: "e3 = None"
    by (cases e3) (simp_all add: render_def)
  from assms Some a b e2 e3 obtain sr where c: "next24HoursSeries h data = Inr sr"
    by (cases "next24HoursSeries h data") (simp_all add: render_def)
  have "render h data s = (None, (makeCharts sr s3)\<lparr>statusPill := js ''Updated''\<rparr>)"
    using Some a b c e2 e3 by (simp add: render_def)
  with Some a b c e2 e3 that show ?thesis by blast
qed



section \<open>The unit toggle\<close>







lemma cards_loop_ok:
  assumes "d_weather_code d \<noteq> None" and "d_temperature_2m_min d \<noteq> None"
    and "d_temperature_2m_max d \<noteq> None" and "d_precipitation_probability_max d \<noteq> None"
    and "d_precipitation_sum d \<noteq> None"
  shows "fst (cards_loop h d days ks s) = None"
proof (induction ks arbitrary: s)
  case Nil
  show ?case by simp
next
  case (Cons k ks)
  from assms obtain fc where "forecastCard h (unit s) d days k = Inr fc"
    by (auto simp: forecastCard_def Let_def)
  then show ?case using Cons.IH by simp
qed

lemma render_ok:
  assumes "well_formed data"
    and "\<not> nullish (p_lat (currentPlace s))"
    and "\<not> nullish (p_lon (currentPlace s))"
  shows "fst (render h data s) = None"
proof -
  from assms(1) obtain c hr d where o:
    "current data = Some c" "hourly data = Some hr" "daily data = Some d"
    by (auto simp: well_formed_def split: option.splits)
  from assms(1) o obtain ts tmp rp wnd days where a:
    "h_time hr = Some ts" "h_temperature_2m hr = Some tmp"
    "h_precipitation_probability hr = Some rp" "h_wind_speed_10m hr = Some wnd"
    "d_time d = Some days"
    by (auto simp: well_formed_def)
  from assms(1) o have dd:
    "d_weather_code d \<noteq> None" "d_temperature_2m_min d \<noteq> None"
    "d_temperature_2m_max d \<noteq> None" "d_precipitation_probability_max d \<noteq> None"
    "d_precipitation_sum d \<noteq> None"
    by (auto simp: well_formed_def)
  let ?s1 = "setTimePill h (c_time c) s"
  from assms(2,3) obtain la lo where ll:
    "p_lat (currentPlace ?s1) = Num la" "p_lon (currentPlace ?s1) = Num lo"
    by (cases "p_lat (currentPlace s)"; cases "p_lon (currentPlace s)")
       (simp_all add: setTimePill_def)
  obtain s2 where t: "setTodayCard h data ?s1 = (None, s2)"
    using setTodayCard_fields(1) [OF o(1) ll, of h]
    by (cases "setTodayCard h data ?s1") simp
  have "fst (cards_loop h d days [0 ..< length days] (s2\<lparr>forecastGrid := []\<rparr>)) = None"
    using dd by (rule cards_loop_ok)
  then obtain s3' where l: "cards_loop h d days [0 ..< length days] (s2\<lparr>forecastGrid := []\<rparr>)
                             = (None, s3')"
    by (cases "cards_loop h d days [0 ..< length days] (s2\<lparr>forecastGrid := []\<rparr>)") simp
  have b: "fst (buildForecastCards h data s2) = None"
    by (simp add: buildForecastCards_def o(3) a(5) Let_def l)
  then obtain s3 where b': "buildForecastCards h data s2 = (None, s3)"
    by (cases "buildForecastCards h data s2") simp
  obtain sr where n: "next24HoursSeries h data = Inr sr"
    by (simp add: next24HoursSeries_def o(2) a)
  show ?thesis
    by (simp add: render_def o(1) t b' n)
qed

lemma well_formed_sample: "well_formed (sample_data n)"
  by (simp add: well_formed_def sample_data_def sample_hourly_def sample_daily_def)


section \<open>A load without the charting library\<close>

text \<open>The steps before the charts do not look at \<^verbatim>\<open>window.Chart\<close>.\<close>

lemma setTodayCard_window_Chart:
  "setTodayCard h data (s\<lparr>window_Chart := b\<rparr>)
     = (fst (setTodayCard h data s), (snd (setTodayCard h data s))\<lparr>window_Chart := b\<rparr>)"
  by (simp add: setTodayCard_def Let_def split: option.splits jsval.splits
      del: Math_round.simps)

lemma cards_loop_window_Chart:
  "cards_loop h d days ks (s\<lparr>window_Chart := b\<rparr>)
     = (fst (cards_loop h d days ks s), (snd (cards_loop h d days ks s))\<lparr>window_Chart := b\<rparr>)"
proof (induction ks arbitrary: s)
  case Nil
  show ?case by simp
next
  case (Cons k ks)
  show ?case
  proof (cases "forecastCard h (unit s) d days k")
    case (Inl e)
    then show ?thesis by simp
  next
    case (Inr fc)
    have comm: "s\<lparr>window_Chart := b, forecastGrid := forecastGrid s @ [fc]\<rparr>
                  = s\<lparr>forecastGrid := forecastGrid s @ [fc], window_Chart := b\<rparr>"
      by simp
    show ?thesis
      using Inr Cons.IH [of "s\<lparr>forecastGrid := forecastGrid s @ [fc]\<rparr>"]
      by (simp add: comm)
  qed
qed

lemma buildForecastCards_window_Chart:
  "buildForecastCards h data (s\<lparr>window_Chart := b\<rparr>)
     = (fst (buildForecastCards h data s), (snd (buildForecastCards h data s))\<lparr>window_Chart := b\<rparr>)"
proof (cases "daily data")
  case None
  then show ?thesis by (simp add: buildForecastCards_def)
next
  case (Some d)
  show ?thesis
  proof (cases "d_time d")
    case None
    with Some show ?thesis by (simp add: buildForecastCards_def Let_def)
  next
    case (Some days)
    let ?s0 = "s\<lparr>forecastGrid := []\<rparr>"
    obtain e s1 where l: "cards_loop h d days [0 ..< length days] ?s0 = (e, s1)"
      by (cases "cards_loop h d days [0 ..< length days] ?s0")
    have comm: "s\<lparr>window_Chart := b, forecastGrid := []\<rparr> = ?s0\<lparr>window_Chart := b\<rparr>"
      by simp
    have l': "cards_loop h d days [0 ..< length days] (s\<lparr>window_Chart := b, forecastGrid := []\<rparr>)
                = (e, s1\<lparr>window_Chart := b\<rparr>)"
      unfolding comm
      using cards_loop_window_Chart [where s = ?s0 and b = b and h = h and d = d and days = days
          and ks = "[0 ..< length days]"] l by simp
    have u: "unit s1 = unit s"
      using cards_loop_frame [of h d days "[0 ..< length days]" ?s0] l by simp
    show ?thesis
      using \<open>daily data = Some d\<close> Some l l' u
      by (cases e) (simp_all add: buildForecastCards_def Let_def)
  qed
qed

text \<open>
  Without the library a load that gets as far as the charts ends as the same load with
  the library does, but for the charts and the error box.
\<close>

lemma charts_unavailable_same_as_normal:
  assumes "\<not> window_Chart s"
    and "fst (render h data (loadWeatherByCoords_start lat lon label tz s)) = None"
  shows "loadWeatherByCoords h lat lon label tz (OkJson data) s
           = (loadWeatherByCoords h lat lon label tz (OkJson data) (s\<lparr>window_Chart := True\<rparr>))
               \<lparr>window_Chart := False,
                tempChart := tempChart s, rainChart := rainChart s, windChart := windChart s,
                errorBox_hidden := False,
                errorTitle := js ''Could not load charts'',
                errorSub := js ''Chart.js is not available (CDN blocked / offline). Change CDN in index.html or use another network.''\<rparr>"
proof -
  let ?s0 = "loadWeatherByCoords_start lat lon label tz s"
  let ?t0 = "loadWeatherByCoords_start lat lon label tz (s\<lparr>window_Chart := True\<rparr>)"
  have t0: "?t0 = ?s0\<lparr>window_Chart := True\<rparr>"
    by (simp add: loadWeatherByCoords_start_def forecast_def setPlace_def setLoading_def
        clearError_def Let_def)
  have s0: "\<not> window_Chart ?s0" "tempChart ?s0 = tempChart s" "rainChart ?s0 = rainChart s"
      "windChart ?s0 = windChart s"
    using assms(1)
    by (simp_all add: loadWeatherByCoords_start_def forecast_def setPlace_def setLoading_def
        clearError_def Let_def)
  from assms(2) obtain c s2 s3 sr where r:
    "current data = Some c"
    "setTodayCard h data (setTimePill h (c_time c) ?s0) = (None, s2)"
    "buildForecastCards h data s2 = (None, s3)"
    "next24HoursSeries h data = Inr sr"
    "render h data ?s0 = (None, (makeCharts sr s3)\<lparr>statusPill := js ''Updated''\<rparr>)"
    by (rule render_reaches)
  have f2: "window_Chart s2 = window_Chart ?s0" "tempChart s2 = tempChart ?s0"
      "rainChart s2 = rainChart ?s0" "windChart s2 = windChart ?s0"
    using setTodayCard_frame(4-7) [of h data "setTimePill h (c_time c) ?s0"] r(2)
    by (simp_all add: setTimePill_def)
  have f3: "window_Chart s3 = window_Chart s2" "tempChart s3 = tempChart s2"
      "rainChart s3 = rainChart s2" "windChart s3 = windChart s2"
    using buildForecastCards_frame(4-7) [of h data s2] r(3) by simp_all
  have w3: "\<not> window_Chart s3" "tempChart s3 = tempChart s" "rainChart s3 = rainChart s"
      "windChart s3 = windChart s"
    using s0 f2 f3 by simp_all
  have comm: "setTimePill h (c_time c) (?s0\<lparr>window_Chart := True\<rparr>)
                = (setTimePill h (c_time c) ?s0)\<lparr>window_Chart := True\<rparr>"
    by (simp add: setTimePill_def)
  have t2: "setTodayCard h data (setTimePill h (c_time c) (?s0\<lparr>window_Chart := True\<rparr>))
              = (None, s2\<lparr>window_Chart := True\<rparr>)"
    unfolding comm
    using setTodayCard_window_Chart [where s = "setTimePill h (c_time c) ?s0" and b = True
        and h = h and data = data] r(2)
    by simp
  have t3: "buildForecastCards h data (s2\<lparr>window_Chart := True\<rparr>)
              = (None, s3\<lparr>window_Chart := True\<rparr>)"
    using buildForecastCards_window_Chart [where s = s2 and b = True and h = h and data = data]
      r(3) by simp
  have rt: "render h data ?t0
              = (None, (makeCharts sr (s3\<lparr>window_Chart := True\<rparr>))\<lparr>statusPill := js ''Updated''\<rparr>)"
    by (simp add: t0 render_def r(1,4) t2 t3)
  have no: "loadWeatherByCoords h lat lon label tz (OkJson data) s
              = setLoading False ((makeCharts sr s3)\<lparr>statusPill := js ''Updated''\<rparr>)"
    by (simp add: loadWeatherByCoords_def loadWeatherByCoords_resume_def forecast_result_simps r(5))
  have yes: "loadWeatherByCoords h lat lon label tz (OkJson data) (s\<lparr>window_Chart := True\<rparr>)
              = setLoading False
                  ((makeCharts sr (s3\<lparr>window_Chart := True\<rparr>))\<lparr>statusPill := js ''Updated''\<rparr>)"
    by (simp add: loadWeatherByCoords_def loadWeatherByCoords_resume_def forecast_result_simps rt)
  show ?thesis
    unfolding no yes using w3
    by (simp add: makeCharts_def ensureChartJs_def showError_def destroyCharts_def
        setLoading_def Let_def)
qed

lemma cards_loop_shape:
  "snd (cards_loop h d days ks s)
     = s\<lparr>forecastGrid := forecastGrid (snd (cards_loop h d days ks s))\<rparr>"
proof (induction ks arbitrary: s)
  case Nil
  show ?case by simp
next
  case (Cons k ks)
  show ?case
  proof (cases "forecastCard h (unit s) d days k")
    case (Inl e)
    then show ?thesis by simp
  next
    case (Inr fc)
    let ?s' = "s\<lparr>forecastGrid := forecastGrid s @ [fc]\<rparr>"
    have "snd (cards_loop h d days ks ?s')
            = ?s'\<lparr>forecastGrid := forecastGrid (snd (cards_loop h d days ks ?s'))\<rparr>"
      by (rule Cons.IH)
    also have "\<dots> = s\<lparr>forecastGrid := forecastGrid (snd (cards_loop h d days ks ?s'))\<rparr>"
      by simp
    finally show ?thesis using Inr by simp
  qed
qed

lemma cards_loop_grid:
  assumes "fst (cards_loop h d days ks s) = None"
  shows "map Inr (forecastGrid (snd (cards_loop h d days ks s)))
           = map Inr (forecastGrid s) @ map (forecastCard h (unit s) d days) ks"
  using assms
proof (induction ks arbitrary: s)
  case Nil
  show ?case by simp
next
  case (Cons k ks)
  show ?case
  proof (cases "forecastCard h (unit s) d days k")
    case (Inl e)
    with Cons.prems show ?thesis by simp
  next
    case (Inr fc)
    let ?s' = "s\<lparr>forecastGrid := forecastGrid s @ [fc]\<rparr>"
    have "fst (cards_loop h d days ks ?s') = None" using Cons.prems Inr by simp
    from Cons.IH [OF this] Inr show ?thesis by simp
  qed
qed

lemma forecastCard_present:
  assumes "d_weather_code d = Some wcode" and "d_temperature_2m_min d = Some tmin"
    and "d_temperature_2m_max d = Some tmax"
    and "d_precipitation_probability_max d = Some pmax"
    and "d_precipitation_sum d = Some psum"
  shows "forecastCard h u d days k =
           Inr \<lparr>fDay = toLocale h Weekday (Some (days ! k)),
                fDate = toLocale h MonthDay (Some (days ! k)),
                fIcon_title = wx_t (decodeWeatherCode (at_index wcode k)),
                fIcon = wx_i (decodeWeatherCode (at_index wcode k)),
                fTemps = NumberToString h (Math_round (at_index tmin k)) @ unitSuffix u
                         @ js '' '' @ BULLET @ js '' ''
                         @ NumberToString h (Math_round (at_index tmax k)) @ unitSuffix u,
                fRain = js ''Rain: '' @ orDash h (at_index pmax k) @ js ''% '' @ BULLET
                        @ js '' Precip: '' @ orZeroFixed1 h (at_index psum k) @ js '' mm''\<rparr>"
  using assms by (simp add: forecastCard_def Let_def del: Math_round.simps)

lemma setTodayCard_no_throw:
  assumes "fst (setTodayCard h data s) = None"
  obtains c la lo where "current data = Some c"
    "p_lat (currentPlace s) = Num la" "p_lon (currentPlace s) = Num lo"
  using assms
  by (cases "current data"; cases "p_lat (currentPlace s)"; cases "p_lon (currentPlace s)")
     (simp_all add: setTodayCard_def Let_def del: Math_round.simps)

text \<open>
  The state in which a load ends when the library is missing and nothing before the
  charts throws, field by field.
\<close>

lemma load_without_charts_state:
  assumes "\<not> window_Chart s"
    and "fst (render h data (loadWeatherByCoords_start lat lon label tz s)) = None"
  obtains c la lo d days grid where
    "current data = Some c" "lat = Num la" "lon = Num lo"
    "daily data = Some d" "d_time d = Some days"
    "map Inr grid = map (forecastCard h (unit s) d days) [0 ..< length days]"
    "loadWeatherByCoords h lat lon label tz (OkJson data) s
       = s\<lparr>currentPlace := \<lparr>p_name = label, p_lat = lat, p_lon = lon, p_tz = tz\<rparr>,
           placePill := label,
           requests := requests s @ [Forecast lat lon tz
              (if unit s = js ''F'' then js ''fahrenheit'' else js ''celsius'') (js ''kmh'')],
           timePill := js ''Updated: '' @ toLocale h WeekdayHourMinute (c_time c),
           wxIcon := wx_i (decodeWeatherCode (c_weather_code c)),
           wxMain := wx_t (decodeWeatherCode (c_weather_code c)),
           conditionBadge := wx_t (decodeWeatherCode (c_weather_code c)),
           tempNow := NumberToString h (Math_round (c_temperature_2m c)),
           tempFeel := NumberToString h (Math_round (c_apparent_temperature c)),
           windNow := NumberToString h (Math_round (c_wind_speed_10m c)),
           humNow := orDash h (c_relative_humidity_2m c),
           precipNow := orZeroFixed1 h (c_precipitation c),
           rainNow := rainText h (getClosestHourly data h_precipitation_probability),
           tempUnit := unitSuffix (unit s),
           feelUnit := unitSuffix (unit s),
           windUnit := js ''km/h'',
           rainUnit := js ''%'',
           wxSub := js ''Lat '' @ toFixed h 2 la @ js '' '' @ BULLET @ js '' Lon '' @ toFixed h 2 lo,
           forecastGrid := grid,
           forecastChip := js ''Daily '' @ BULLET @ js '' '' @ unitSuffix (unit s),
           errorBox_hidden := False,
           errorTitle := js ''Could not load charts'',
           errorSub := js ''Chart.js is not available (CDN blocked / offline). Change CDN in index.html or use another network.'',
           loading_hidden := True,
           statusPill := js ''Ready''\<rparr>"
proof -
  let ?s0 = "loadWeatherByCoords_start lat lon label tz s"
  have s0: "?s0 = s\<lparr>errorBox_hidden := True, loading_hidden := False,
                     statusPill := js ''Loading'' @ ELLIPSIS,
                     currentPlace := \<lparr>p_name = label, p_lat = lat, p_lon = lon, p_tz = tz\<rparr>,
                     placePill := label,
                     requests := requests s @ [Forecast lat lon tz
                       (if unit s = js ''F'' then js ''fahrenheit'' else js ''celsius'')
                       (js ''kmh'')]\<rparr>"
    by (simp add: loadWeatherByCoords_start_def forecast_def setPlace_def setLoading_def
        clearError_def Let_def)
  from assms(2) obtain c s2 s3 sr where r:
    "current data = Some c"
    "setTodayCard h data (setTimePill h (c_time c) ?s0) = (None, s2)"
    "buildForecastCards h data s2 = (None, s3)"
    "next24HoursSeries h data = Inr sr"
    "render h data ?s0 = (None, (makeCharts sr s3)\<lparr>statusPill := js ''Updated''\<rparr>)"
    by (rule render_reaches)
  let ?s1 = "setTimePill h (c_time c) ?s0"
  have pl: "p_lat (currentPlace ?s1) = lat" "p_lon (currentPlace ?s1) = lon"
    by (simp_all add: s0 setTimePill_def)
  have "fst (setTodayCard h data ?s1) = None" by (simp add: r(2))
  then obtain la lo where pn:
    "p_lat (currentPlace ?s1) = Num la" "p_lon (currentPlace ?s1) = Num lo"
    by (rule setTodayCard_no_throw)
  then have ll: "lat = Num la" "lon = Num lo"
    unfolding pl by simp_all
  have s2: "s2 = ?s1\<lparr>wxIcon := wx_i (decodeWeatherCode (c_weather_code c)),
           wxMain := wx_t (decodeWeatherCode (c_weather_code c)),
           conditionBadge := wx_t (decodeWeatherCode (c_weather_code c)),
           tempNow := NumberToString h (Math_round (c_temperature_2m c)),
           tempFeel := NumberToString h (Math_round (c_apparent_temperature c)),
           windNow := NumberToString h (Math_round (c_wind_speed_10m c)),
           humNow := orDash h (c_relative_humidity_2m c),
           precipNow := orZeroFixed1 h (c_precipitation c),
           rainNow := rainText h (getClosestHourly data h_precipitation_probability),
           tempUnit := unitSuffix (unit ?s1),
           feelUnit := unitSuffix (unit ?s1),
           windUnit := js ''km/h'',
           rainUnit := js ''%'',
           wxSub := js ''Lat '' @ toFixed h 2 la @ js '' '' @ BULLET @ js '' Lon '' @ toFixed h 2 lo\<rparr>"
    using r(2) by (simp add: setTodayCard_def r(1) pn Let_def del: Math_round.simps)
  have u1: "unit ?s1 = unit s" by (simp add: s0 setTimePill_def)
  have u2: "unit s2 = unit s" by (simp add: s2 u1)
  from r(3) obtain d where d: "daily data = Some d"
    by (cases "daily data") (simp_all add: buildForecastCards_def)
  from r(3) d obtain days where days: "d_time d = Some days"
    by (cases "d_time d") (simp_all add: buildForecastCards_def Let_def)
  let ?loop = "cards_loop h d days [0 ..< length days] (s2\<lparr>forecastGrid := []\<rparr>)"
  obtain e sl where l: "?loop = (e, sl)" by (cases ?loop)
  from r(3) d days l have e: "e = None"
    by (cases e) (simp_all add: buildForecastCards_def Let_def)
  have s3: "s3 = sl\<lparr>forecastChip := js ''Daily '' @ BULLET @ js '' '' @ unitSuffix (unit sl)\<rparr>"
    using r(3) d days l e by (simp add: buildForecastCards_def Let_def)
  have sl: "sl = s2\<lparr>forecastGrid := forecastGrid sl\<rparr>"
    using cards_loop_shape [of h d days "[0 ..< length days]" "s2\<lparr>forecastGrid := []\<rparr>"] l
    by simp
  have g: "map Inr (forecastGrid sl) = map (forecastCard h (unit s) d days) [0 ..< length days]"
    using cards_loop_grid [of h d days "[0 ..< length days]" "s2\<lparr>forecastGrid := []\<rparr>"] l e
    by (simp add: u2)
  have ul: "unit sl = unit s" by (subst sl) (simp add: u2)
  have w3: "\<not> window_Chart s3"
    using assms(1) by (subst s3, subst sl, simp add: s2 s0 setTimePill_def)
  have fin: "loadWeatherByCoords h lat lon label tz (OkJson data) s
              = setLoading False ((makeCharts sr s3)\<lparr>statusPill := js ''Updated''\<rparr>)"
    by (simp add: loadWeatherByCoords_def loadWeatherByCoords_resume_def forecast_result_simps r(5))
  have mk: "makeCharts sr s3
              = s3\<lparr>errorBox_hidden := False, errorTitle := js ''Could not load charts'',
                   errorSub := js ''Chart.js is not available (CDN blocked / offline). Change CDN in index.html or use another network.'',
                   statusPill := js ''Error''\<rparr>"
    using w3 by (simp add: makeCharts_def ensureChartJs_def showError_def)
  have "loadWeatherByCoords h lat lon label tz (OkJson data) s
       = s\<lparr>currentPlace := \<lparr>p_name = label, p_lat = lat, p_lon = lon, p_tz = tz\<rparr>,
           placePill := label,
           requests := requests s @ [Forecast lat lon tz
              (if unit s = js ''F'' then js ''fahrenheit'' else js ''celsius'') (js ''kmh'')],
           timePill := js ''Updated: '' @ toLocale h WeekdayHourMinute (c_time c),
           wxIcon := wx_i (decodeWeatherCode (c_weather_code c)),
           wxMain := wx_t (decodeWeatherCode (c_weather_code c)),
           conditionBadge := wx_t (decodeWeatherCode (c_weather_code c)),
           tempNow := NumberToString h (Math_round (c_temperature_2m c)),
           tempFeel := NumberToString h (Math_round (c_apparent_temperature c)),
           windNow := NumberToString h (Math_round (c_wind_speed_10m c)),
           humNow := orDash h (c_relative_humidity_2m c),
           precipNow := orZeroFixed1 h (c_precipitation c),
           rainNow := rainText h (getClosestHourly data h_precipitation_probability),
           tempUnit := unitSuffix (unit s),
           feelUnit := unitSuffix (unit s),
           windUnit := js ''km/h'',
           rainUnit := js ''%'',
           wxSub := js ''Lat '' @ toFixed h 2 la @ js '' '' @ BULLET @ js '' Lon '' @ toFixed h 2 lo,
           forecastGrid := forecastGrid sl,
           forecastChip := js ''Daily '' @ BULLET @ js '' '' @ unitSuffix (unit s),
           errorBox_hidden := False,
           errorTitle := js ''Could not load charts'',
           errorSub := js ''Chart.js is not available (CDN blocked / offline). Change CDN in index.html or use another network.'',
           loading_hidden := True,
           statusPill := js ''Ready''\<rparr>"
    unfolding fin mk
    by (subst s3, subst sl, simp add: ul s2 u1 s0 setTimePill_def formatLocalTime_def
        setLoading_def del: Math_round.simps)
  with r(1) ll d days g that show ?thesis by blast
qed

text \<open>
  Claim C4.  When \<^verbatim>\<open>window.Chart\<close> is missing and a load gets as far as the charts
  (nothing before them throws), nothing is thrown and the load ends with:
  the error box showing \<^verbatim>\<open>Could not load charts\<close> and the three charts left as they were;
  every field of the today card written from the current conditions of the payload (icon,
  label, rounded temperatures and wind, humidity or the dash, precipitation, rain chance,
  units, coordinates) and the time pill from its time;
  the forecast grid holding one card per day of the payload, card \<open>k\<close> being the card
  \<^verbatim>\<open>buildForecastCards\<close> makes of day \<open>k\<close> (day and date names, decoded icon and label,
  rounded minimum and maximum with the unit, rain probability or the dash, precipitation
  sum to one decimal), and the chip naming the unit;
  the place pill, the status \<^verbatim>\<open>Ready\<close> and the loading indicator hidden.
  The state is also the one the same load reaches with the library, but for the charts
  and the error box.
\<close>

theorem charts_unavailable_rest_renders:
  assumes "\<not> window_Chart s"
    and "fst (render h data (loadWeatherByCoords_start lat lon label tz s)) = None"
  shows "let s' = loadWeatherByCoords h lat lon label tz (OkJson data) s
         in s' = (loadWeatherByCoords h lat lon label tz (OkJson data) (s\<lparr>window_Chart := True\<rparr>))
                  \<lparr>window_Chart := False,
                   tempChart := tempChart s, rainChart := rainChart s, windChart := windChart s,
                   errorBox_hidden := False,
                   errorTitle := js ''Could not load charts'',
                   errorSub := js ''Chart.js is not available (CDN blocked / offline). Change CDN in index.html or use another network.''\<rparr>
            \<and> \<not> errorBox_hidden s'
            \<and> errorTitle s' = js ''Could not load charts''
            \<and> tempChart s' = tempChart s \<and> rainChart s' = rainChart s \<and> windChart s' = windChart s
            \<and> (\<exists>c la lo. current data = Some c \<and> lat = Num la \<and> lon = Num lo
                  \<and> wxIcon s' = wx_i (decodeWeatherCode (c_weather_code c))
                  \<and> wxMain s' = wx_t (decodeWeatherCode (c_weather_code c))
                  \<and> conditionBadge s' = wx_t (decodeWeatherCode (c_weather_code c))
                  \<and> tempNow s' = NumberToString h (Math_round (c_temperature_2m c))
                  \<and> tempFeel s' = NumberToString h (Math_round (c_apparent_temperature c))
                  \<and> windNow s' = NumberToString h (Math_round (c_wind_speed_10m c))
                  \<and> humNow s' = orDash h (c_relative_humidity_2m c)
                  \<and> precipNow s' = orZeroFixed1 h (c_precipitation c)
                  \<and> rainNow s' = rainText h (getClosestHourly data h_precipitation_probability)
                  \<and> tempUnit s' = unitSuffix (unit s) \<and> feelUnit s' = unitSuffix (unit s)
                  \<and> windUnit s' = js ''km/h'' \<and> rainUnit s' = js ''%''
                  \<and> wxSub s' = js ''Lat '' @ toFixed h 2 la @ js '' '' @ BULLET @ js '' Lon ''
                               @ toFixed h 2 lo
                  \<and> timePill s' = js ''Updated: '' @ toLocale h WeekdayHourMinute (c_time c))
            \<and> (\<exists>d days. daily data = Some d \<and> d_time d = Some days
                  \<and> length (forecastGrid s') = length days
                  \<and> (\<forall>k<length days. forecastCard h (unit s) d days k = Inr (forecastGrid s' ! k))
                  \<and> (\<forall>wcode tmin tmax pmax psum k.
                        d_weather_code d = Some wcode \<and> d_temperature_2m_min d = Some tmin
                        \<and> d_temperature_2m_max d = Some tmax
                        \<and> d_precipitation_probability_max d = Some pmax
                        \<and> d_precipitation_sum d = Some psum \<and> k < length days
                        \<longrightarrow> forecastGrid s' ! k =
                              \<lparr>fDay = toLocale h Weekday (Some (days ! k)),
                               fDate = toLocale h MonthDay (Some (days ! k)),
                               fIcon_title = wx_t (decodeWeatherCode (at_index wcode k)),
                               fIcon = wx_i (decodeWeatherCode (at_index wcode k)),
                               fTemps = NumberToString h (Math_round (at_index tmin k))
                                        @ unitSuffix (unit s) @ js '' '' @ BULLET @ js '' ''
                                        @ NumberToString h (Math_round (at_index tmax k))
                                        @ unitSuffix (unit s),
                               fRain = js ''Rain: '' @ orDash h (at_index pmax k) @ js ''% ''
                                       @ BULLET @ js '' Precip: ''
                                       @ orZeroFixed1 h (at_index psum k) @ js '' mm''\<rparr>))
            \<and> forecastChip s' = js ''Daily '' @ BULLET @ js '' '' @ unitSuffix (unit s)
            \<and> placePill s' = label
            \<and> statusPill s' = js ''Ready''
            \<and> loading_hidden s'"
proof -
  let ?s' = "loadWeatherByCoords h lat lon label tz (OkJson data) s"
  from assms obtain c la lo d days grid where st:
    "current data = Some c" "lat = Num la" "lon = Num lo"
    "daily data = Some d" "d_time d = Some days"
    "map Inr grid = map (forecastCard h (unit s) d days) [0 ..< length days]"
    "?s' = s\<lparr>currentPlace := \<lparr>p_name = label, p_lat = lat, p_lon = lon, p_tz = tz\<rparr>,
           placePill := label,
           requests := requests s @ [Forecast lat lon tz
              (if unit s = js ''F'' then js ''fahrenheit'' else js ''celsius'') (js ''kmh'')],
           timePill := js ''Updated: '' @ toLocale h WeekdayHourMinute (c_time c),
           wxIcon := wx_i (decodeWeatherCode (c_weather_code c)),
           wxMain := wx_t (decodeWeatherCode (c_weather_code c)),
           conditionBadge := wx_t (decodeWeatherCode (c_weather_code c)),
           tempNow := NumberToString h (Math_round (c_temperature_2m c)),
           tempFeel := NumberToString h (Math_round (c_apparent_temperature c)),
           windNow := NumberToString h (Math_round (c_wind_speed_10m c)),
           humNow := orDash h (c_relative_humidity_2m c),
           precipNow := orZeroFixed1 h (c_precipitation c),
           rainNow := rainText h (getClosestHourly data h_precipitation_probability),
           tempUnit := unitSuffix (unit s),
           feelUnit := unitSuffix (unit s),
           windUnit := js ''km/h'',
           rainUnit := js ''%'',
           wxSub := js ''Lat '' @ toFixed h 2 la @ js '' '' @ BULLET @ js '' Lon '' @ toFixed h 2 lo,
           forecastGrid := grid,
           forecastChip := js ''Daily '' @ BULLET @ js '' '' @ unitSuffix (unit s),
           errorBox_hidden := False,
           errorTitle := js ''Could not load charts'',
           errorSub := js ''Chart.js is not available (CDN blocked / offline). Change CDN in index.html or use another network.'',
           loading_hidden := True,
           statusPill := js ''Ready''\<rparr>"
    by (rule load_without_charts_state)
  have len: "length grid = length days"
    using arg_cong [OF st(6), of length] by simp
  have nth: "forecastCard h (unit s) d days k = Inr (grid ! k)" if "k < length days" for k
    using arg_cong [OF st(6), of "\<lambda>xs. xs ! k"] that len by simp
  have a: "?s' = (loadWeatherByCoords h lat lon label tz (OkJson data) (s\<lparr>window_Chart := True\<rparr>))
                  \<lparr>window_Chart := False,
                   tempChart := tempChart s, rainChart := rainChart s, windChart := windChart s,
                   errorBox_hidden := False,
                   errorTitle := js ''Could not load charts'',
                   errorSub := js ''Chart.js is not available (CDN blocked / offline). Change CDN in index.html or use another network.''\<rparr>"
    using assms by (rule charts_unavailable_same_as_normal)
  have g: "forecastGrid ?s' = grid" by (subst st(7)) simp
  have b: "\<not> errorBox_hidden ?s' \<and> errorTitle ?s' = js ''Could not load charts''
      \<and> tempChart ?s' = tempChart s \<and> rainChart ?s' = rainChart s \<and> windChart ?s' = windChart s
      \<and> forecastChip ?s' = js ''Daily '' @ BULLET @ js '' '' @ unitSuffix (unit s)
      \<and> placePill ?s' = label \<and> statusPill ?s' = js ''Ready'' \<and> loading_hidden ?s'"
    by (subst st(7))+ simp
  have t: "wxIcon ?s' = wx_i (decodeWeatherCode (c_weather_code c))
      \<and> wxMain ?s' = wx_t (decodeWeatherCode (c_weather_code c))
      \<and> conditionBadge ?s' = wx_t (decodeWeatherCode (c_weather_code c))
      \<and> tempNow ?s' = NumberToString h (Math_round (c_temperature_2m c))
      \<and> tempFeel ?s' = NumberToString h (Math_round (c_apparent_temperature c))
      \<and> windNow ?s' = NumberToString h (Math_round (c_wind_speed_10m c))
      \<and> humNow ?s' = orDash h (c_relative_humidity_2m c)
      \<and> precipNow ?s' = orZeroFixed1 h (c_precipitation c)
      \<and> rainNow ?s' = rainText h (getClosestHourly data h_precipitation_probability)
      \<and> tempUnit ?s' = unitSuffix (unit s) \<and> feelUnit ?s' = unitSuffix (unit s)
      \<and> windUnit ?s' = js ''km/h'' \<and> rainUnit ?s' = js ''%''
      \<and> wxSub ?s' = js ''Lat '' @ toFixed h 2 la @ js '' '' @ BULLET @ js '' Lon ''
                   @ toFixed h 2 lo
      \<and> timePill ?s' = js ''Updated: '' @ toLocale h WeekdayHourMinute (c_time c)"
    by (subst st(7))+ (simp del: Math_round.simps)
  have e: "forecastGrid ?s' ! k =
              \<lparr>fDay = toLocale h Weekday (Some (days ! k)),
               fDate = toLocale h MonthDay (Some (days ! k)),
               fIcon_title = wx_t (decodeWeatherCode (at_index wcode k)),
               fIcon = wx_i (decodeWeatherCode (at_index wcode k)),
               fTemps = NumberToString h (Math_round (at_index tmin k))
                        @ unitSuffix (unit s) @ js '' '' @ BULLET @ js '' ''
                        @ NumberToString h (Math_round (at_index tmax k))
                        @ unitSuffix (unit s),
               fRain = js ''Rain: '' @ orDash h (at_index pmax k) @ js ''% ''
                       @ BULLET @ js '' Precip: ''
                       @ orZeroFixed1 h (at_index psum k) @ js '' mm''\<rparr>"
    if "d_weather_code d = Some wcode \<and> d_temperature_2m_min d = Some tmin
        \<and> d_temperature_2m_max d = Some tmax
        \<and> d_precipitation_probability_max d = Some pmax
        \<and> d_precipitation_sum d = Some psum \<and> k < length days"
    for wcode tmin tmax pmax psum k
  proof -
    from that have p: "d_weather_code d = Some wcode" "d_temperature_2m_min d = Some tmin"
      "d_temperature_2m_max d = Some tmax" "d_precipitation_probability_max d = Some pmax"
      "d_precipitation_sum d = Some psum" and k: "k < length days"
      by simp_all
    from nth [OF k] forecastCard_present [OF p, of h "unit s" days k]
    show ?thesis unfolding g by simp
  qed
  have dd: "\<exists>d days. daily data = Some d \<and> d_time d = Some days
                  \<and> length (forecastGrid ?s') = length days
                  \<and> (\<forall>k<length days. forecastCard h (unit s) d days k = Inr (forecastGrid ?s' ! k))
                  \<and> (\<forall>wcode tmin tmax pmax psum k.
                        d_weather_code d = Some wcode \<and> d_temperature_2m_min d = Some tmin
                        \<and> d_temperature_2m_max d = Some tmax
                        \<and> d_precipitation_probability_max d = Some pmax
                        \<and> d_precipitation_sum d = Some psum \<and> k < length days
                        \<longrightarrow> forecastGrid ?s' ! k =
                              \<lparr>fDay = toLocale h Weekday (Some (days ! k)),
                               fDate = toLocale h MonthDay (Some (days ! k)),
                               fIcon_title = wx_t (decodeWeatherCode (at_index wcode k)),
                               fIcon = wx_i (decodeWeatherCode (at_index wcode k)),
                               fTemps = NumberToString h (Math_round (at_index tmin k))
                                        @ unitSuffix (unit s) @ js '' '' @ BULLET @ js '' ''
                                        @ NumberToString h (Math_round (at_index tmax k))
                                        @ unitSuffix (unit s),
                               fRain = js ''Rain: '' @ orDash h (at_index pmax k) @ js ''% ''
                                       @ BULLET @ js '' Precip: ''
                                       @ orZeroFixed1 h (at_index psum k) @ js '' mm''\<rparr>)"
    using st(4,5) len nth e unfolding g by blast
  have cc: "\<exists>c la lo. current data = Some c \<and> lat = Num la \<and> lon = Num lo
                  \<and> wxIcon ?s' = wx_i (decodeWeatherCode (c_weather_code c))
                  \<and> wxMain ?s' = wx_t (decodeWeatherCode (c_weather_code c))
                  \<and> conditionBadge ?s' = wx_t (decodeWeatherCode (c_weather_code c))
                  \<and> tempNow ?s' = NumberToString h (Math_round (c_temperature_2m c))
                  \<and> tempFeel ?s' = NumberToString h (Math_round (c_apparent_temperature c))
                  \<and> windNow ?s' = NumberToString h (Math_round (c_wind_speed_10m c))
                  \<and> humNow ?s' = orDash h (c_relative_humidity_2m c)
                  \<and> precipNow ?s' = orZeroFixed1 h (c_precipitation c)
                  \<and> rainNow ?s' = rainText h (getClosestHourly data h_precipitation_probability)
                  \<and> tempUnit ?s' = unitSuffix (unit s) \<and> feelUnit ?s' = unitSuffix (unit s)
                  \<and> windUnit ?s' = js ''km/h'' \<and> rainUnit ?s' = js ''%''
                  \<and> wxSub ?s' = js ''Lat '' @ toFixed h 2 la @ js '' '' @ BULLET @ js '' Lon ''
                               @ toFixed h 2 lo
                  \<and> timePill ?s' = js ''Updated: '' @ toLocale h WeekdayHourMinute (c_time c)"
    using st(1-3) t by blast
  from a b cc dd show ?thesis unfolding Let_def by (intro conjI) simp_all
qed

lemma floor_rat_numeral:
  "\<lfloor>numeral a / numeral b :: rat\<rfloor> = numeral a div numeral b"
  by (metis floor_divide_of_int_eq of_int_numeral)

lemma floor_rat_one_numeral:
  "\<lfloor>1 / numeral b :: rat\<rfloor> = 1 div numeral b"
  by (metis floor_divide_of_int_eq of_int_1 of_int_numeral)

lemma sample_today:
  "NumberToString sample_host (Math_round (c_temperature_2m sample_current)) = js ''22''"
  "orDash sample_host (c_relative_humidity_2m sample_current) = DASH"
  by (simp_all add: sample_current_def NumberToString_def int_digits_def nat_digits.simps
      js_def orDash_def floor_rat_numeral)

lemma sample_first_card:
  "forecastCard sample_host (js ''C'') sample_daily
     (map (\<lambda>k. js ''2024-05-0'' @ nat_digits (Suc k)) [0 ..< 7]) 0
   = Inr \<lparr>fDay = js ''2024-05-01'', fDate = js ''2024-05-01'',
          fIcon_title = js ''Clear sky'', fIcon = [9728, 65039],
          fTemps = js ''10'' @ DEGREE @ js ''C '' @ BULLET @ js '' 20'' @ DEGREE @ js ''C'',
          fRain = js ''Rain: 0% '' @ BULLET @ js '' Precip: 0.0 mm''\<rparr>"
proof -
  have z: "[0 ..< 7] ! 0 = (0::nat)" by simp
  show ?thesis
    by (simp add: forecastCard_def sample_daily_def sample_host_def at_index_def z
        NumberToString_def int_digits_def nat_digits.simps js_def orDash_def orZeroFixed1_def
        toFixed_def floor_rat_numeral floor_rat_one_numeral Let_def unitSuffix_def
        decodeWeatherCode_def map_lookup_def weather_map_def)
qed

text \<open>
  The theorem for a load of the sample payload on the initial page without the library:
  the error is shown, no chart exists, the temperature reads \<^verbatim>\<open>22\<close>, the humidity is the
  dash, the grid has seven cards and the first one is the card of the first day.
\<close>

theorem charts_unavailable_rest_renders_witness:
  "errorTitle (loadWeatherByCoords sample_host (Num (277 / 10)) (Num (853 / 10)) (js ''Kathmandu'')
       (js ''auto'') (OkJson (sample_data 24)) (initial\<lparr>window_Chart := False\<rparr>))
     = js ''Could not load charts''
   \<and> tempChart (loadWeatherByCoords sample_host (Num (277 / 10)) (Num (853 / 10)) (js ''Kathmandu'')
       (js ''auto'') (OkJson (sample_data 24)) (initial\<lparr>window_Chart := False\<rparr>)) = None
   \<and> tempNow (loadWeatherByCoords sample_host (Num (277 / 10)) (Num (853 / 10)) (js ''Kathmandu'')
       (js ''auto'') (OkJson (sample_data 24)) (initial\<lparr>window_Chart := False\<rparr>)) = js ''22''
   \<and> humNow (loadWeatherByCoords sample_host (Num (277 / 10)) (Num (853 / 10)) (js ''Kathmandu'')
       (js ''auto'') (OkJson (sample_data 24)) (initial\<lparr>window_Chart := False\<rparr>)) = DASH
   \<and> length (forecastGrid (loadWeatherByCoords sample_host (Num (277 / 10)) (Num (853 / 10))
       (js ''Kathmandu'') (js ''auto'') (OkJson (sample_data 24))
       (initial\<lparr>window_Chart := False\<rparr>))) = 7
   \<and> forecastGrid (loadWeatherByCoords sample_host (Num (277 / 10)) (Num (853 / 10))
       (js ''Kathmandu'') (js ''auto'') (OkJson (sample_data 24))
       (initial\<lparr>window_Chart := False\<rparr>)) ! 0
     = \<lparr>fDay = js ''2024-05-01'', fDate = js ''2024-05-01'',
        fIcon_title = js ''Clear sky'', fIcon = [9728, 65039],
        fTemps = js ''10'' @ DEGREE @ js ''C '' @ BULLET @ js '' 20'' @ DEGREE @ js ''C'',
        fRain = js ''Rain: 0% '' @ BULLET @ js '' Precip: 0.0 mm''\<rparr>"
proof -
  let ?s = "initial\<lparr>window_Chart := False\<rparr>"
  let ?S = "loadWeatherByCoords sample_host (Num (277 / 10)) (Num (853 / 10)) (js ''Kathmandu'')
       (js ''auto'') (OkJson (sample_data 24)) ?s"
  have a: "\<not> window_Chart ?s" by simp
  have p: "currentPlace (loadWeatherByCoords_start (Num (277 / 10)) (Num (853 / 10))
             (js ''Kathmandu'') (js ''auto'') ?s)
           = \<lparr>p_name = js ''Kathmandu'', p_lat = Num (277 / 10), p_lon = Num (853 / 10),
              p_tz = js ''auto''\<rparr>"
    by (simp add: loadWeatherByCoords_start_def forecast_def setPlace_def setLoading_def
        clearError_def Let_def)
  have b: "fst (render sample_host (sample_data 24)
             (loadWeatherByCoords_start (Num (277 / 10)) (Num (853 / 10))
                (js ''Kathmandu'') (js ''auto'') ?s)) = None"
    by (rule render_ok) (simp_all add: well_formed_sample p)
  have u: "unit ?s = js ''C''" and tc: "tempChart ?s = None"
    by (simp_all add: initial_def)
  note th = charts_unavailable_rest_renders [OF a b, unfolded Let_def]
  note rest2 = th [THEN conjunct2, THEN conjunct2]
  note rest6 = rest2 [THEN conjunct2, THEN conjunct2, THEN conjunct2, THEN conjunct2]
  have et: "errorTitle ?S = js ''Could not load charts''" by (rule rest2 [THEN conjunct1])
  have ch: "tempChart ?S = None"
    using rest2 [THEN conjunct2, THEN conjunct1] by (simp add: tc)
  from rest6 [THEN conjunct1] obtain c where c: "current (sample_data 24) = Some c"
      "tempNow ?S = NumberToString sample_host (Math_round (c_temperature_2m c))"
      "humNow ?S = orDash sample_host (c_relative_humidity_2m c)"
    by (elim exE conjE)
  from c(1) have c': "c = sample_current" by (simp add: sample_data_def)
  have tn: "tempNow ?S = js ''22''" unfolding c(2) c' by (rule sample_today(1))
  have hn: "humNow ?S = DASH" unfolding c(3) c' by (rule sample_today(2))
  from rest6 [THEN conjunct2, THEN conjunct1] obtain d days where
    d: "daily (sample_data 24) = Some d" "d_time d = Some days"
      "length (forecastGrid ?S) = length days"
      "\<forall>k<length days. forecastCard sample_host (unit ?s) d days k = Inr (forecastGrid ?S ! k)"
    by (elim exE conjE)
  from d(1) have d': "d = sample_daily" by (simp add: sample_data_def)
  from d(2) have days: "days = map (\<lambda>k. js ''2024-05-0'' @ nat_digits (Suc k)) [0 ..< 7]"
    by (simp add: d' sample_daily_def)
  have len: "length (forecastGrid ?S) = 7" by (simp add: d(3) days)
  have "forecastCard sample_host (unit ?s) d days 0 = Inr (forecastGrid ?S ! 0)"
    using d(4) by (simp add: days)
  then have card0: "forecastGrid ?S ! 0
     = \<lparr>fDay = js ''2024-05-01'', fDate = js ''2024-05-01'',
        fIcon_title = js ''Clear sky'', fIcon = [9728, 65039],
        fTemps = js ''10'' @ DEGREE @ js ''C '' @ BULLET @ js '' 20'' @ DEGREE @ js ''C'',
        fRain = js ''Rain: 0% '' @ BULLET @ js '' Precip: 0.0 mm''\<rparr>"
    unfolding u d' days sample_first_card by simp
  from et ch tn hn len card0 show ?thesis by (intro conjI)
qed

end
